theory Spec2Isabelle
  imports Complex_Main
begin

section \<open>Numbers, configuration and shared records\<close>

text \<open>
  The program is TypeScript; every numeric quantity is a JavaScript \<^verbatim>\<open>number\<close>.
  This development reads them as exact real numbers: \<open>+\<close>, \<open>-\<close>, \<open>*\<close>, \<open>/\<close>,
  \<^verbatim>\<open>Math.abs\<close>, \<^verbatim>\<open>Math.max\<close>, \<^verbatim>\<open>Math.min\<close> are the operations
  of \<^typ>\<open>real\<close>, and rounding error, infinities and NaN are outside the model.
  Where the source divides, a zero divisor gives a non-finite JavaScript value; HOL gives
  \<open>0\<close> there, so every statement that depends on a quotient carries the hypothesis that
  the divisor is not zero.
\<close>

text \<open>\<^verbatim>\<open>CONFIG\<close> (config.ts): the trading parameters and risk limits, read from the
  environment with defaults, hence parameters here.\<close>

record Config =
  ORDER_SIZE :: real
  MIN_SPREAD_BPS :: real
  MAX_SPREAD_BPS :: real
  INVENTORY_SKEW_FACTOR :: real
  REQUOTE_THRESHOLD_BPS :: real
  MAX_POSITION :: real
  MAX_NOTIONAL :: real
  MAX_LOSS :: real

text \<open>The defaults of config.ts.\<close>

definition default_config :: Config where
  "default_config =
     \<lparr> ORDER_SIZE = 50, MIN_SPREAD_BPS = 200, MAX_SPREAD_BPS = 1000,
       INVENTORY_SKEW_FACTOR = 1 / 1000, REQUOTE_THRESHOLD_BPS = 50,
       MAX_POSITION = 1000, MAX_NOTIONAL = 5000, MAX_LOSS = 500 \<rparr>"

text \<open>\<^verbatim>\<open>interface Quote\<close> and \<^verbatim>\<open>interface Position\<close> (types.ts).\<close>

record Quote =
  bidPrice :: real
  askPrice :: real
  bidSize :: real
  askSize :: real
  fairValue :: real
  spread :: real
  timestamp :: real

record Position =
  yesShares :: real
  noShares :: real
  netDelta :: real
  avgEntryPrice :: real
  unrealizedPnl :: real
  realizedPnl :: real

definition flat_position :: Position where
  "flat_position =
     \<lparr> yesShares = 0, noShares = 0, netDelta = 0, avgEntryPrice = 0,
       unrealizedPnl = 0, realizedPnl = 0 \<rparr>"

section \<open>RiskAgent (agents/risk.ts)\<close>

datatype RiskAction = ALLOW | REDUCE_ONLY | HALT

text \<open>The two fields of the class, and the events it emits (\<^verbatim>\<open>this.emit\<close>), returned
  in emission order next to the new state.\<close>

record RiskAgent =
  position :: Position
  halted :: bool

datatype risk_event = Position_update Position | Halt_event string

definition risk_init :: RiskAgent where
  "risk_init = \<lparr> position = flat_position, halted = False \<rparr>"

definition checkLimits :: "Config \<Rightarrow> RiskAgent \<Rightarrow> RiskAgent \<times> risk_event list" where
  "checkLimits cfg s =
     (let totalPnl = realizedPnl (position s) + unrealizedPnl (position s)
      in if totalPnl < - MAX_LOSS cfg
         then (s\<lparr>halted := True\<rparr>, [Halt_event ''max_loss_breached''])
         else (s, []))"

text \<open>The position written by \<^verbatim>\<open>processFill\<close> before it emits: every side other than
  \<^verbatim>\<open>'BUY'\<close> takes the else branch.\<close>

definition fill_position :: "string \<Rightarrow> real \<Rightarrow> real \<Rightarrow> Position \<Rightarrow> Position" where
  "fill_position side price sz p =
     (let p1 =
        (if side = ''BUY''
         then (let newShares = yesShares p + sz
               in p\<lparr>avgEntryPrice :=
                      (avgEntryPrice p * yesShares p + price * sz) / newShares,
                    yesShares := newShares\<rparr>)
         else (let pnl = (price - avgEntryPrice p) * sz
               in p\<lparr>realizedPnl := realizedPnl p + pnl,
                    yesShares := yesShares p - sz\<rparr>))
      in p1\<lparr>netDelta := yesShares p1\<rparr>)"

definition processFill ::
  "Config \<Rightarrow> string \<Rightarrow> real \<Rightarrow> real \<Rightarrow> RiskAgent \<Rightarrow> RiskAgent \<times> risk_event list" where
  "processFill cfg side price sz s =
     (let s1 = s\<lparr>position := fill_position side price sz (position s)\<rparr>;
          (s2, evs) = checkLimits cfg s1
      in (s2, Position_update (position s1) # evs))"

definition updateUnrealizedPnl :: "real \<Rightarrow> RiskAgent \<Rightarrow> RiskAgent" where
  "updateUnrealizedPnl currentFairValue s =
     s\<lparr>position := (position s)\<lparr>unrealizedPnl :=
        (currentFairValue - avgEntryPrice (position s)) * yesShares (position s)\<rparr>\<rparr>"

text \<open>
  \<^verbatim>\<open>processFill\<close> as index.ts wires it: the \<^verbatim>\<open>position_update\<close> listener calls
  \<^verbatim>\<open>risk.updateUnrealizedPnl\<close> during the emit, between the position write and
  \<^verbatim>\<open>checkLimits\<close>, with the fair value of the quoting agent's current quote (or 0.5).
\<close>

definition processFill_wired ::
  "Config \<Rightarrow> string \<Rightarrow> real \<Rightarrow> real \<Rightarrow> real \<Rightarrow> RiskAgent \<Rightarrow> RiskAgent \<times> risk_event list" where
  "processFill_wired cfg side price sz listenerFairValue s =
     (let s1 = s\<lparr>position := fill_position side price sz (position s)\<rparr>;
          s2 = updateUnrealizedPnl listenerFairValue s1;
          (s3, evs) = checkLimits cfg s2
      in (s3, Position_update (position s1) # evs))"

text \<open>\<^verbatim>\<open>quote.fairValue || 0.5\<close>: a fair value of zero is falsy and is replaced.\<close>

definition fairValue_or_half :: "Quote \<Rightarrow> real" where
  "fairValue_or_half q = (if fairValue q = 0 then 1 / 2 else fairValue q)"

definition checkQuote ::
  "Config \<Rightarrow> Quote \<Rightarrow> RiskAgent \<Rightarrow> RiskAction \<times> RiskAgent \<times> risk_event list" where
  "checkQuote cfg q s =
     (if halted s then (HALT, s, [])
      else
        (let absPosition = \<bar>netDelta (position s)\<bar>;
             totalPnl = realizedPnl (position s) + unrealizedPnl (position s)
         in if totalPnl < - MAX_LOSS cfg
            then (HALT, s\<lparr>halted := True\<rparr>, [Halt_event ''max_loss_breached''])
            else
              (let notional = absPosition * fairValue_or_half q
               in if notional > MAX_NOTIONAL cfg then (REDUCE_ONLY, s, [])
                  else if absPosition > MAX_POSITION cfg then (REDUCE_ONLY, s, [])
                  else (ALLOW, s, []))))"

definition applyRiskAdjustment :: "Quote \<Rightarrow> RiskAction \<Rightarrow> RiskAgent \<Rightarrow> Quote" where
  "applyRiskAdjustment q action s =
     (if action = HALT then q\<lparr>bidSize := 0, askSize := 0\<rparr>
      else if action = REDUCE_ONLY
           then (if netDelta (position s) > 0 then q\<lparr>bidSize := 0\<rparr>
                 else q\<lparr>askSize := 0\<rparr>)
      else q)"

definition unhalt :: "RiskAgent \<Rightarrow> RiskAgent" where
  "unhalt s = s\<lparr>halted := False\<rparr>"

definition risk_resetForNewMarket :: "RiskAgent \<Rightarrow> RiskAgent \<times> risk_event list" where
  "risk_resetForNewMarket s =
     (\<lparr> position = flat_position, halted = False \<rparr>, [Position_update flat_position])"

text \<open>The public methods of the class as operations, and the state after a sequence of
  calls made in any order by the rest of the program.\<close>

datatype risk_op =
    ProcessFill string real real
  | ProcessFill_wired string real real real
  | UpdateUnrealizedPnl real
  | CheckQuote Quote
  | ApplyRiskAdjustment Quote RiskAction
  | Unhalt
  | ResetForNewMarket

fun risk_step :: "Config \<Rightarrow> risk_op \<Rightarrow> RiskAgent \<Rightarrow> RiskAgent" where
  "risk_step cfg (ProcessFill side price sz) s = fst (processFill cfg side price sz s)"
| "risk_step cfg (ProcessFill_wired side price sz fv) s =
     fst (processFill_wired cfg side price sz fv s)"
| "risk_step cfg (UpdateUnrealizedPnl fv) s = updateUnrealizedPnl fv s"
| "risk_step cfg (CheckQuote q) s = fst (snd (checkQuote cfg q s))"
| "risk_step cfg (ApplyRiskAdjustment q a) s = s"
| "risk_step cfg Unhalt s = unhalt s"
| "risk_step cfg ResetForNewMarket s = fst (risk_resetForNewMarket s)"

fun risk_run :: "Config \<Rightarrow> risk_op list \<Rightarrow> RiskAgent \<Rightarrow> RiskAgent" where
  "risk_run cfg [] s = s"
| "risk_run cfg (op # ops) s = risk_run cfg ops (risk_step cfg op s)"

text \<open>The decision the specification words for a quote checked while not halted.\<close>

definition checkQuote_spec ::
  "Config \<Rightarrow> Quote \<Rightarrow> RiskAgent \<Rightarrow> RiskAction \<times> RiskAgent \<times> risk_event list" where
  "checkQuote_spec cfg q s =
     (if realizedPnl (position s) + unrealizedPnl (position s) < - MAX_LOSS cfg
      then (HALT, s\<lparr>halted := True\<rparr>, [Halt_event ''max_loss_breached''])
      else if \<bar>netDelta (position s)\<bar> * fairValue q > MAX_NOTIONAL cfg
           then (REDUCE_ONLY, s, [])
      else if \<bar>netDelta (position s)\<bar> > MAX_POSITION cfg then (REDUCE_ONLY, s, [])
      else (ALLOW, s, []))"

section \<open>ExecutionAgent (agents/execution.ts)\<close>

text \<open>\<^verbatim>\<open>MarketInfo\<close> and \<^verbatim>\<open>ActiveMarketContext\<close> (strategies/types.ts);
  \<^verbatim>\<open>ActiveOrders\<close>, \<^verbatim>\<open>SignedOrder\<close> and \<^verbatim>\<open>OrderResponse\<close> (types.ts). The price
  and size fields of \<^verbatim>\<open>ActiveOrders\<close> carry the prefix \<open>active\<close>, their source names
  being those of \<open>Quote\<close>.\<close>

record MarketInfo =
  conditionId :: string
  yesTokenId :: string
  noTokenId :: string
  negRisk :: bool
  tickSize :: real
  expiresAt :: real
  startedAt :: real
  description :: string

record ActiveMarketContext = MarketInfo +
  strikePrice :: real

record ActiveOrders =
  bidOrderId :: "string option"
  askOrderId :: "string option"
  activeBidPrice :: real
  activeAskPrice :: real
  activeBidSize :: real
  activeAskSize :: real

record SignedOrder =
  salt :: string
  maker :: string
  signer :: string
  taker :: string
  tokenId :: string
  makerAmount :: string
  takerAmount :: string
  expiration :: string
  nonce :: string
  orderFeeRateBps :: string
  orderSide :: nat
  signatureType :: nat
  signature :: string

record OrderResponse =
  success :: bool
  errorMsg :: string
  orderID :: string
  status :: string

record Timings =
  cycleMs :: real
  signMs :: real
  cancelMs :: real
  submitMs :: real

definition zero_timings :: Timings where
  "zero_timings = \<lparr> cycleMs = 0, signMs = 0, cancelMs = 0, submitMs = 0 \<rparr>"

definition no_orders :: ActiveOrders where
  "no_orders =
     \<lparr> bidOrderId = None, askOrderId = None, activeBidPrice = 0, activeAskPrice = 0,
       activeBidSize = 0, activeAskSize = 0 \<rparr>"

text \<open>The fields of the class that its methods write (the wallet and the timer handle are
  set once and never change).\<close>

record ExecutionAgent =
  market :: "ActiveMarketContext option"
  feeRateBps :: string
  active :: ActiveOrders
  heartbeatId :: string
  cancelInFlight :: bool

definition exec_init :: ExecutionAgent where
  "exec_init =
     \<lparr> market = None, feeRateBps = ''0'', active = no_orders, heartbeatId = [],
       cancelInFlight = False \<rparr>"

text \<open>What the agent emits, and the requests it hands to the signing capability and the
  venue, in the order it makes them.\<close>

datatype exec_event =
    Cycle_complete Timings
  | Cycle_error string
  | Fill_processed string real string

datatype exec_call =
    Sign_order string nat real real
  | Delete_cancel_market_orders string string
  | Post_orders SignedOrder SignedOrder
  | Post_order SignedOrder
  | Delete_cancel_all

text \<open>
  Everything outside the agent that one cancel-and-replace cycle meets: whether each
  signing promise resolves or rejects (\<open>Inl\<close> is the exception), what each HTTP request
  returns or throws, and the readings of \<^verbatim>\<open>performance.now()\<close> after the first two.
  \<^verbatim>\<open>httpRequest\<close> returns the parsed body or \<^verbatim>\<open>null\<close>, or throws.
\<close>

record cycle_world =
  signBid :: "string + SignedOrder"
  signAsk :: "string + SignedOrder"
  cancelHttp :: "string + unit"
  batchHttp :: "string + OrderResponse list option"
  singleBidHttp :: "string + OrderResponse option"
  singleAskHttp :: "string + OrderResponse option"
  now_signEnd :: real
  now_submitStart :: real
  now_submitEnd :: real
  now_end :: real

text \<open>A JavaScript string-or-null is truthy when it is a non-empty string.\<close>

definition truthy_id :: "string option \<Rightarrow> bool" where
  "truthy_id x = (case x of None \<Rightarrow> False | Some i \<Rightarrow> i \<noteq> [])"

text \<open>\<^verbatim>\<open>results?.[k] ?? null\<close>.\<close>

definition result_at :: "OrderResponse list option \<Rightarrow> nat \<Rightarrow> OrderResponse option" where
  "result_at results k =
     (case results of None \<Rightarrow> None
      | Some rs \<Rightarrow> (if k < length rs then Some (rs ! k) else None))"

text \<open>\<^verbatim>\<open>submitSingle\<close> catches the exception of its request and returns \<^verbatim>\<open>null\<close>.\<close>

definition submitSingle :: "string + OrderResponse option \<Rightarrow> OrderResponse option" where
  "submitSingle http = (case http of Inl err \<Rightarrow> None | Inr r \<Rightarrow> r)"

definition submitOrdersBatch ::
  "cycle_world \<Rightarrow> SignedOrder \<Rightarrow> SignedOrder
     \<Rightarrow> (OrderResponse option \<times> OrderResponse option) \<times> exec_call list" where
  "submitOrdersBatch w bid ask =
     (case batchHttp w of
        Inr results \<Rightarrow> ((result_at results 0, result_at results 1), [Post_orders bid ask])
      | Inl err \<Rightarrow>
          ((submitSingle (singleBidHttp w), submitSingle (singleAskHttp w)),
           [Post_orders bid ask, Post_order bid, Post_order ask]))"

text \<open>\<^verbatim>\<open>cancelExisting\<close>: a request is made only when an order is resting; its result is
  not used and its exception is caught, so only the request is recorded.\<close>

definition cancelExisting :: "ExecutionAgent \<Rightarrow> exec_call list" where
  "cancelExisting s =
     (let hasOrders = truthy_id (bidOrderId (active s)) \<or> truthy_id (askOrderId (active s))
      in case market s of
           None \<Rightarrow> []
         | Some m \<Rightarrow>
             (if hasOrders then [Delete_cancel_market_orders (conditionId m) (yesTokenId m)]
              else []))"

text \<open>
  \<^verbatim>\<open>cancelAndReplace\<close> suspends at its \<^verbatim>\<open>await\<close>s, and other handlers of the agent
  may run in between. It writes the agent's fields at two moments only: synchronously at
  the call, up to the first \<^verbatim>\<open>await\<close> (the guard is set, both signing requests and the
  cancel are started), and when the cycle settles (the \<^verbatim>\<open>try\<close> block ends or its
  \<^verbatim>\<open>catch\<close> runs, then \<^verbatim>\<open>finally\<close>). The two moments are two functions; what the
  call keeps in its closure between them is a \<open>cycle\<close>.
\<close>

record cycle =
  cycle_quote :: Quote
  cycleStart :: real
  signStart :: real

datatype begin_result = Dropped Timings | Started cycle

definition cancelAndReplace_begin ::
  "Quote \<Rightarrow> real \<Rightarrow> real \<Rightarrow> ExecutionAgent
     \<Rightarrow> begin_result \<times> ExecutionAgent \<times> exec_call list" where
  "cancelAndReplace_begin q now0 now1 s =
     (case market s of
        None \<Rightarrow> (Dropped zero_timings, s, [])
      | Some m \<Rightarrow>
          (if cancelInFlight s then (Dropped zero_timings, s, [])
           else
             (let s1 = s\<lparr>cancelInFlight := True\<rparr>
              in (Started \<lparr> cycle_quote = q, cycleStart = now0, signStart = now1 \<rparr>, s1,
                  [Sign_order (yesTokenId m) 0 (bidPrice q) (bidSize q),
                   Sign_order (yesTokenId m) 1 (askPrice q) (askSize q)]
                  @ cancelExisting s1))))"

text \<open>The rest of the call. \<^verbatim>\<open>Promise.all\<close> rejects when a signing promise rejects (the
  third promise never rejects); the error it carries is taken to be the bid's when both
  reject.\<close>

definition cancelAndReplace_settle ::
  "cycle_world \<Rightarrow> cycle \<Rightarrow> ExecutionAgent
     \<Rightarrow> Timings \<times> ExecutionAgent \<times> exec_event list \<times> exec_call list" where
  "cancelAndReplace_settle w c s =
     (case (signBid w, signAsk w) of
        (Inr signedBid, Inr signedAsk) \<Rightarrow>
          (let signMs' = now_signEnd w - signStart c;
               ((bidResult, askResult), calls) = submitOrdersBatch w signedBid signedAsk;
               submitMs' = now_submitEnd w - now_submitStart w;
               q = cycle_quote c;
               s1 = s\<lparr>active :=
                      \<lparr> bidOrderId = map_option orderID bidResult,
                        askOrderId = map_option orderID askResult,
                        activeBidPrice = bidPrice q, activeAskPrice = askPrice q,
                        activeBidSize = bidSize q, activeAskSize = askSize q \<rparr>\<rparr>;
               t = \<lparr> cycleMs = now_end w - cycleStart c, signMs = signMs',
                     cancelMs = signMs', submitMs = submitMs' \<rparr>
           in (t, s1\<lparr>cancelInFlight := False\<rparr>, [Cycle_complete t], calls))
      | (Inl err, _) \<Rightarrow>
          (\<lparr> cycleMs = now_end w - cycleStart c, signMs = 0, cancelMs = 0, submitMs = 0 \<rparr>,
           s\<lparr>cancelInFlight := False\<rparr>, [Cycle_error err], [])
      | (Inr signedBid, Inl err) \<Rightarrow>
          (\<lparr> cycleMs = now_end w - cycleStart c, signMs = 0, cancelMs = 0, submitMs = 0 \<rparr>,
           s\<lparr>cancelInFlight := False\<rparr>, [Cycle_error err], []))"

text \<open>The whole call when nothing else runs between its two moments.\<close>

definition cancelAndReplace ::
  "cycle_world \<Rightarrow> Quote \<Rightarrow> real \<Rightarrow> real \<Rightarrow> ExecutionAgent
     \<Rightarrow> Timings \<times> ExecutionAgent \<times> exec_event list \<times> exec_call list" where
  "cancelAndReplace w q now0 now1 s =
     (case cancelAndReplace_begin q now0 now1 s of
        (Dropped t, s1, calls) \<Rightarrow> (t, s1, [], calls)
      | (Started c, s1, calls) \<Rightarrow>
          (let (t, s2, evs, calls2) = cancelAndReplace_settle w c s1
           in (t, s2, evs, calls @ calls2)))"

text \<open>\<^verbatim>\<open>cancelAll\<close>, at the moment its request returns or throws.\<close>

definition cancelAll :: "string + unit \<Rightarrow> ExecutionAgent \<Rightarrow> ExecutionAgent" where
  "cancelAll http s = (case http of Inr u \<Rightarrow> s\<lparr>active := no_orders\<rparr> | Inl err \<Rightarrow> s)"

definition handleFill ::
  "string \<Rightarrow> real \<Rightarrow> string \<Rightarrow> ExecutionAgent \<Rightarrow> ExecutionAgent \<times> exec_event list" where
  "handleFill orderId filledAmount fside s =
     (let a = active s;
          a' =
            (if Some orderId = bidOrderId a
             then (let a1 = a\<lparr>activeBidSize := max 0 (activeBidSize a - filledAmount)\<rparr>
                   in if activeBidSize a1 \<le> 0 then a1\<lparr>bidOrderId := None\<rparr> else a1)
             else if Some orderId = askOrderId a
             then (let a1 = a\<lparr>activeAskSize := max 0 (activeAskSize a - filledAmount)\<rparr>
                   in if activeAskSize a1 \<le> 0 then a1\<lparr>askOrderId := None\<rparr> else a1)
             else a)
      in (s\<lparr>active := a'\<rparr>, [Fill_processed orderId filledAmount fside]))"

text \<open>\<^verbatim>\<open>setMarket\<close> after its \<^verbatim>\<open>cancelAll\<close>: the assignment, and the fee rate
  once \<^verbatim>\<open>fetchFeeRate\<close> has its answer (\<open>None\<close>: the field is absent or the fetch threw).\<close>

definition setMarket_assign :: "ActiveMarketContext \<Rightarrow> ExecutionAgent \<Rightarrow> ExecutionAgent" where
  "setMarket_assign m s = s\<lparr>market := Some m\<rparr>"

definition fetchFeeRate :: "string option \<Rightarrow> ExecutionAgent \<Rightarrow> ExecutionAgent" where
  "fetchFeeRate fee s =
     (case market s of
        None \<Rightarrow> s
      | Some m \<Rightarrow> s\<lparr>feeRateBps := (case fee of Some f \<Rightarrow> f | None \<Rightarrow> ''0'')\<rparr>)"

text \<open>
  The agent together with the cycles that have begun and not yet settled, and the moments
  at which the event loop runs code of the agent. \<open>Settle k w\<close> settles the \<open>k\<close>-th
  pending cycle, if there is one.
\<close>

record exec_sys =
  agent :: ExecutionAgent
  in_progress :: "cycle list"

datatype exec_op =
    Call_cancelAndReplace Quote real real
  | Settle nat cycle_world
  | Call_handleFill string real string
  | CancelAll_done "string + unit"
  | SetMarket_assign ActiveMarketContext
  | FetchFeeRate_done "string option"

fun exec_step :: "exec_op \<Rightarrow> exec_sys \<Rightarrow> exec_sys" where
  "exec_step (Call_cancelAndReplace q now0 now1) sys =
     (case cancelAndReplace_begin q now0 now1 (agent sys) of
        (Dropped t, s1, calls) \<Rightarrow> sys\<lparr>agent := s1\<rparr>
      | (Started c, s1, calls) \<Rightarrow> sys\<lparr>agent := s1, in_progress := in_progress sys @ [c]\<rparr>)"
| "exec_step (Settle k w) sys =
     (if k < length (in_progress sys)
      then sys\<lparr>agent := fst (snd (cancelAndReplace_settle w (in_progress sys ! k) (agent sys))),
               in_progress := take k (in_progress sys) @ drop (Suc k) (in_progress sys)\<rparr>
      else sys)"
| "exec_step (Call_handleFill orderId filledAmount fside) sys =
     sys\<lparr>agent := fst (handleFill orderId filledAmount fside (agent sys))\<rparr>"
| "exec_step (CancelAll_done http) sys = sys\<lparr>agent := cancelAll http (agent sys)\<rparr>"
| "exec_step (SetMarket_assign m) sys = sys\<lparr>agent := setMarket_assign m (agent sys)\<rparr>"
| "exec_step (FetchFeeRate_done fee) sys = sys\<lparr>agent := fetchFeeRate fee (agent sys)\<rparr>"

fun exec_run :: "exec_op list \<Rightarrow> exec_sys \<Rightarrow> exec_sys" where
  "exec_run [] sys = sys"
| "exec_run (op # ops) sys = exec_run ops (exec_step op sys)"

definition exec_sys_init :: exec_sys where
  "exec_sys_init = \<lparr> agent = exec_init, in_progress = [] \<rparr>"

text \<open>The invariant of the in-flight guard: at most one cycle is pending, and the
  guard is set exactly while one is.\<close>

definition exec_inv :: "exec_sys \<Rightarrow> bool" where
  "exec_inv sys =
     (length (in_progress sys) \<le> 1 \<and> cancelInFlight (agent sys) = (in_progress sys \<noteq> []))"

section \<open>MarketManager (market-manager.ts)\<close>

text \<open>The fields its methods write. The strategy's \<^verbatim>\<open>discoverActiveMarket\<close> is an
  external capability: its answer (\<open>None\<close> when no market is found or discovery fails) is
  an argument of the methods that await it, as is the reading of \<^verbatim>\<open>Date.now()\<close>.\<close>

record MarketManager =
  current :: "ActiveMarketContext option"
  alive :: bool
  initialBtcPrice :: real



definition setInitialBtcPrice :: "real \<Rightarrow> MarketManager \<Rightarrow> MarketManager" where
  "setInitialBtcPrice price s = s\<lparr>initialBtcPrice := price\<rparr>"













section \<open>Btc5MinStrategy: the fair-value model (strategies/btc-5min.ts)\<close>

definition normalCDF :: "real \<Rightarrow> real" where
  "normalCDF x =
     (let a1 = 254829592 / 1000000000;
          a2 = - (284496736 / 1000000000);
          a3 = 1421413741 / 1000000000;
          a4 = - (1453152027 / 1000000000);
          a5 = 1061405429 / 1000000000;
          p = 3275911 / 10000000;
          sign = (if x < 0 then - 1 else 1);
          absX = \<bar>x\<bar> / sqrt 2;
          t = 1 / (1 + p * absX);
          y = 1 - (((((a5 * t + a4) * t + a3) * t + a2) * t + a1) * t * exp (- absX * absX))
      in (1 / 2) * (1 + sign * y))"

definition computeFairValue :: "real \<Rightarrow> real \<Rightarrow> real \<Rightarrow> real \<Rightarrow> real" where
  "computeFairValue btcPrice' strikePrice' volatility' timeToExpiryMs =
     (if btcPrice' \<le> 0 \<or> strikePrice' \<le> 0 \<or> volatility' \<le> 0 then 1 / 2
      else
        (let T = max (timeToExpiryMs / 1000 / ((36525 / 100) * 24 * 3600)) (1 / 10 ^ 10);
             sqrtT = sqrt T;
             d = ln (btcPrice' / strikePrice') / (volatility' * sqrtT)
         in max (1 / 100) (min (99 / 100) (normalCDF d))))"

text \<open>The polynomial that \<open>normalCDF\<close> evaluates at \<open>t\<close>, and its derivative.\<close>

definition cdf_poly :: "real \<Rightarrow> real" where
  "cdf_poly t =
     ((((1061405429 / 1000000000 * t + - (1453152027 / 1000000000)) * t
          + 1421413741 / 1000000000) * t + - (284496736 / 1000000000)) * t
          + 254829592 / 1000000000) * t"

definition cdf_poly' :: "real \<Rightarrow> real" where
  "cdf_poly' t =
     254829592 / 1000000000 + 2 * (- (284496736 / 1000000000)) * t
       + 3 * (1421413741 / 1000000000) * t\<^sup>2 + 4 * (- (1453152027 / 1000000000)) * t ^ 3
       + 5 * (1061405429 / 1000000000) * t ^ 4"

section \<open>QuotingAgent (agents/quoting.ts)\<close>

text \<open>\<^verbatim>\<open>Math.round\<close> rounds to the nearest integer, a half towards \<open>+\<infinity>\<close>.\<close>

definition js_round :: "real \<Rightarrow> int" where
  "js_round x = \<lfloor>x + 1 / 2\<rfloor>"

definition roundToTick :: "real \<Rightarrow> real \<Rightarrow> real" where
  "roundToTick price t = of_int (js_round (price / t)) * t"

definition clampPrice :: "real \<Rightarrow> real \<Rightarrow> real" where
  "clampPrice price t = max t (min (1 - t) (roundToTick price t))"

text \<open>The fields of the class; \<open>quoteTickSize\<close> and \<open>quotePosition\<close> are its
  \<^verbatim>\<open>tickSize\<close> and \<^verbatim>\<open>position\<close>.\<close>

record QuotingAgent =
  lastQuote :: "Quote option"
  btcPrice :: real
  volatility :: real
  quoteTickSize :: real
  quotePosition :: Position

datatype quoting_event = New_quote Quote

definition quoting_init :: QuotingAgent where
  "quoting_init =
     \<lparr> lastQuote = None, btcPrice = 0, volatility = 0, quoteTickSize = 1 / 1000,
       quotePosition = flat_position \<rparr>"

definition setTickSize :: "real \<Rightarrow> QuotingAgent \<Rightarrow> QuotingAgent" where
  "setTickSize t s = s\<lparr>quoteTickSize := t\<rparr>"

definition updatePosition :: "Position \<Rightarrow> QuotingAgent \<Rightarrow> QuotingAgent" where
  "updatePosition pos s = s\<lparr>quotePosition := pos\<rparr>"

definition updateMarketData :: "real \<Rightarrow> real \<Rightarrow> QuotingAgent \<Rightarrow> QuotingAgent" where
  "updateMarketData price vol s = s\<lparr>btcPrice := price, volatility := vol\<rparr>"

definition computeSpread :: "Config \<Rightarrow> QuotingAgent \<Rightarrow> real" where
  "computeSpread cfg s =
     (let volNormalized = min 1 (max 0 ((volatility s - 30 / 100) / (50 / 100)));
          spreadBps = MIN_SPREAD_BPS cfg
                        + volNormalized * (MAX_SPREAD_BPS cfg - MIN_SPREAD_BPS cfg)
      in spreadBps / 10000)"

definition shouldRequote :: "Config \<Rightarrow> Quote \<Rightarrow> QuotingAgent \<Rightarrow> bool" where
  "shouldRequote cfg newQuote s =
     (case lastQuote s of
        None \<Rightarrow> True
      | Some l \<Rightarrow>
          (let bidDiffBps = \<bar>bidPrice newQuote - bidPrice l\<bar> / bidPrice l * 10000;
               askDiffBps = \<bar>askPrice newQuote - askPrice l\<bar> / askPrice l * 10000
           in bidDiffBps \<ge> REQUOTE_THRESHOLD_BPS cfg \<or> askDiffBps \<ge> REQUOTE_THRESHOLD_BPS cfg))"

text \<open>\<^verbatim>\<open>computeQuote\<close>; \<open>now\<close> is the reading of \<^verbatim>\<open>Date.now()\<close>.\<close>

definition computeQuote ::
  "Config \<Rightarrow> real \<Rightarrow> real \<Rightarrow> QuotingAgent
     \<Rightarrow> Quote option \<times> QuotingAgent \<times> quoting_event list" where
  "computeQuote cfg now fv s =
     (if fv \<le> 0 \<or> fv \<ge> 1 then (None, s, [])
      else
        (let halfSpread = computeSpread cfg s / 2;
             inventorySkew = - netDelta (quotePosition s) * INVENTORY_SKEW_FACTOR cfg;
             rawBid = fv - halfSpread + inventorySkew;
             rawAsk = fv + halfSpread + inventorySkew;
             t = quoteTickSize s;
             bid = clampPrice rawBid t;
             ask = clampPrice rawAsk t
         in if bid \<ge> ask then (None, s, [])
            else
              (let q = \<lparr> bidPrice = bid, askPrice = ask, bidSize = ORDER_SIZE cfg,
                         askSize = ORDER_SIZE cfg, fairValue = fv, spread = ask - bid,
                         timestamp = now \<rparr>;
                   should = shouldRequote cfg q s
               in (Some q, s\<lparr>lastQuote := Some q\<rparr>, if should then [New_quote q] else []))))"

definition quoting_resetForNewMarket :: "QuotingAgent \<Rightarrow> QuotingAgent" where
  "quoting_resetForNewMarket s = s\<lparr>lastQuote := None, quotePosition := flat_position\<rparr>"

text \<open>
  The requote gate in the words of the specification: the relative change of a price
  against a baseline in basis points; a quote is requote-worthy against a baseline (the
  last computed quote, if any) when there is none or when its bid or its ask moved by at
  least the threshold; and the flags of a sequence of computed quotes, each compared
  with its predecessor.
\<close>

definition relative_change_bps :: "real \<Rightarrow> real \<Rightarrow> real" where
  "relative_change_bps new old = \<bar>new - old\<bar> / old * 10000"

definition requote_worthy :: "Config \<Rightarrow> Quote option \<Rightarrow> Quote \<Rightarrow> bool" where
  "requote_worthy cfg base q =
     (case base of
        None \<Rightarrow> True
      | Some l \<Rightarrow>
          REQUOTE_THRESHOLD_BPS cfg \<le> relative_change_bps (bidPrice q) (bidPrice l)
          \<or> REQUOTE_THRESHOLD_BPS cfg \<le> relative_change_bps (askPrice q) (askPrice l))"

fun gate_flags :: "Config \<Rightarrow> Quote option \<Rightarrow> Quote list \<Rightarrow> bool list" where
  "gate_flags cfg base [] = []"
| "gate_flags cfg base (q # qs) = requote_worthy cfg base q # gate_flags cfg (Some q) qs"

text \<open>The calls made on the agent within one market, and the quotes a sequence of them
  computes, each with whether it was emitted.\<close>

datatype quoting_op =
    ComputeQuote real real
  | UpdateMarketData real real
  | UpdatePosition Position
  | SetTickSize real

fun quoting_run ::
  "Config \<Rightarrow> quoting_op list \<Rightarrow> QuotingAgent \<Rightarrow> (Quote \<times> bool) list \<times> QuotingAgent" where
  "quoting_run cfg [] s = ([], s)"
| "quoting_run cfg (ComputeQuote now fv # ops) s =
     (case computeQuote cfg now fv s of
        (None, s1, evs) \<Rightarrow> quoting_run cfg ops s1
      | (Some q, s1, evs) \<Rightarrow>
          (let (out, s2) = quoting_run cfg ops s1 in ((q, evs \<noteq> []) # out, s2)))"
| "quoting_run cfg (UpdateMarketData price vol # ops) s =
     quoting_run cfg ops (updateMarketData price vol s)"
| "quoting_run cfg (UpdatePosition pos # ops) s = quoting_run cfg ops (updatePosition pos s)"
| "quoting_run cfg (SetTickSize t # ops) s = quoting_run cfg ops (setTickSize t s)"

text \<open>\<open>x\<close> is an exact multiple of the tick \<open>t\<close>.\<close>

definition tick_multiple :: "real \<Rightarrow> real \<Rightarrow> bool" where
  "tick_multiple x t = (of_int \<lfloor>x / t\<rfloor> * t = x)"

text \<open>A quote around a fair value of one half, for the concrete runs below.\<close>

definition mid_quote :: Quote where
  "mid_quote =
     \<lparr> bidPrice = 49 / 100, askPrice = 51 / 100, bidSize = 50, askSize = 50,
       fairValue = 1 / 2, spread = 2 / 100, timestamp = 0 \<rparr>"

text \<open>A market, signed orders, a pair of resting orders and two worlds for the concrete
  runs below: one in which every HTTP request throws, one in which, besides, the signing
  of the ask rejects.\<close>

definition market0 :: ActiveMarketContext where
  "market0 =
     \<lparr> conditionId = ''0xc0'', yesTokenId = ''101'', noTokenId = ''102'', negRisk = False,
       tickSize = 1 / 100, expiresAt = 300000, startedAt = 0, description = ''BTC up or down'',
       strikePrice = 0 \<rparr>"

definition signed0 :: "nat \<Rightarrow> SignedOrder" where
  "signed0 sd =
     \<lparr> salt = ''1'', maker = ''0xproxy'', signer = ''0xwallet'', taker = ''0x0'',
       tokenId = ''101'', makerAmount = ''1'', takerAmount = ''1'', expiration = ''0'',
       nonce = ''0'', orderFeeRateBps = ''0'', orderSide = sd, signatureType = 2,
       signature = ''0xsig'' \<rparr>"

definition resting0 :: ActiveOrders where
  "resting0 =
     \<lparr> bidOrderId = Some ''b1'', askOrderId = Some ''a1'', activeBidPrice = 40 / 100,
       activeAskPrice = 60 / 100, activeBidSize = 50, activeAskSize = 50 \<rparr>"

definition world_http_down :: cycle_world where
  "world_http_down =
     \<lparr> signBid = Inr (signed0 0), signAsk = Inr (signed0 1),
       cancelHttp = Inl ''HTTP 500: down'', batchHttp = Inl ''HTTP 500: down'',
       singleBidHttp = Inl ''HTTP 500: down'', singleAskHttp = Inl ''HTTP 500: down'',
       now_signEnd = 2, now_submitStart = 2, now_submitEnd = 5, now_end = 5 \<rparr>"

definition world_sign_fails :: cycle_world where
  "world_sign_fails = world_http_down\<lparr>signAsk := Inl ''signing failed''\<rparr>"



text \<open>The quote computed at a fair value of one half with a tick of one cent, no
  volatility, no inventory and the default configuration.\<close>

definition cent_quote :: "real \<Rightarrow> Quote" where
  "cent_quote now =
     \<lparr> bidPrice = 49 / 100, askPrice = 51 / 100, bidSize = 50, askSize = 50,
       fairValue = 1 / 2, spread = 2 / 100, timestamp = now \<rparr>"

section \<open>RiskAgent: properties\<close>

lemma checkLimits_halted: "halted s \<Longrightarrow> halted (fst (checkLimits cfg s))"
  by (simp add: checkLimits_def Let_def)

lemma processFill_halted: "halted s \<Longrightarrow> halted (fst (processFill cfg side price sz s))"
  by (simp add: processFill_def checkLimits_def Let_def split: prod.splits if_splits)

lemma processFill_wired_halted:
  "halted s \<Longrightarrow> halted (fst (processFill_wired cfg side price sz fv s))"
  by (simp add: processFill_wired_def checkLimits_def updateUnrealizedPnl_def Let_def
      split: prod.splits if_splits)

lemma updateUnrealizedPnl_halted: "halted (updateUnrealizedPnl fv s) = halted s"
  by (simp add: updateUnrealizedPnl_def)

lemma checkQuote_halted_state: "halted s \<Longrightarrow> fst (snd (checkQuote cfg q s)) = s"
  by (simp add: checkQuote_def)

lemma risk_step_halted:
  "halted s \<Longrightarrow> op \<noteq> Unhalt \<Longrightarrow> op \<noteq> ResetForNewMarket \<Longrightarrow> halted (risk_step cfg op s)"
  by (cases op)
     (simp_all add: processFill_halted processFill_wired_halted updateUnrealizedPnl_halted
        checkQuote_halted_state)

lemma risk_run_halted:
  "halted s \<Longrightarrow> Unhalt \<notin> set ops \<Longrightarrow> ResetForNewMarket \<notin> set ops
     \<Longrightarrow> halted (risk_run cfg ops s)"
proof (induction ops arbitrary: s)
  case Nil
  then show ?case by simp
next
  case (Cons op ops)
  from Cons.prems have "halted (risk_step cfg op s)"
    by (intro risk_step_halted) auto
  with Cons show ?case by simp
qed

lemma fst_processFill_position:
  "position (fst (processFill cfg side price sz s)) = fill_position side price sz (position s)"
  by (simp add: processFill_def checkLimits_def Let_def split: prod.splits)

text \<open>
  Claim C1, as the code has it. Once \<open>halted\<close> is set, it stays set through every
  sequence of \<open>processFill\<close> (alone or with the listener of index.ts),
  \<open>updateUnrealizedPnl\<close>, \<open>checkQuote\<close> and \<open>applyRiskAdjustment\<close> calls, whatever
  they do to the position, and \<open>checkQuote\<close> then returns \<open>HALT\<close>; the only calls
  that can make the flag false again are \<open>unhalt\<close> and \<open>resetForNewMarket\<close>.
\<close>

theorem halt_sticky:
  assumes "halted s" and "Unhalt \<notin> set ops" and "ResetForNewMarket \<notin> set ops"
  shows "halted (risk_run cfg ops s)
       \<and> fst (checkQuote cfg q (risk_run cfg ops s)) = HALT
       \<and> (\<forall>op. \<not> halted (risk_step cfg op (risk_run cfg ops s))
              \<longrightarrow> op = Unhalt \<or> op = ResetForNewMarket)"
proof -
  have h: "halted (risk_run cfg ops s)"
    using assms by (rule risk_run_halted)
  then have "fst (checkQuote cfg q (risk_run cfg ops s)) = HALT"
    by (simp add: checkQuote_def)
  moreover have "\<forall>op. \<not> halted (risk_step cfg op (risk_run cfg ops s))
              \<longrightarrow> op = Unhalt \<or> op = ResetForNewMarket"
    using h risk_step_halted by blast
  ultimately show ?thesis using h by simp
qed

theorem halt_sticky_witness:
  "halted (risk_init\<lparr>halted := True\<rparr>)
   \<and> Unhalt \<notin> set [ProcessFill ''BUY'' (45 / 100) 10, UpdateUnrealizedPnl (1 / 2),
                     CheckQuote mid_quote, ProcessFill_wired ''SELL'' (1 / 2) 4 (1 / 2),
                     ApplyRiskAdjustment mid_quote HALT]
   \<and> ResetForNewMarket \<notin> set [ProcessFill ''BUY'' (45 / 100) 10, UpdateUnrealizedPnl (1 / 2),
                     CheckQuote mid_quote, ProcessFill_wired ''SELL'' (1 / 2) 4 (1 / 2),
                     ApplyRiskAdjustment mid_quote HALT]
   \<and> fst (checkQuote default_config mid_quote
        (risk_run default_config
           [ProcessFill ''BUY'' (45 / 100) 10, UpdateUnrealizedPnl (1 / 2),
            CheckQuote mid_quote, ProcessFill_wired ''SELL'' (1 / 2) 4 (1 / 2),
            ApplyRiskAdjustment mid_quote HALT]
           (risk_init\<lparr>halted := True\<rparr>))) = HALT"
proof -
  have a: "halted (risk_init\<lparr>halted := True\<rparr>)" by simp
  have b: "Unhalt \<notin> set [ProcessFill ''BUY'' (45 / 100) 10, UpdateUnrealizedPnl (1 / 2),
                     CheckQuote mid_quote, ProcessFill_wired ''SELL'' (1 / 2) 4 (1 / 2),
                     ApplyRiskAdjustment mid_quote HALT]" by simp
  have c: "ResetForNewMarket \<notin> set [ProcessFill ''BUY'' (45 / 100) 10,
                     UpdateUnrealizedPnl (1 / 2), CheckQuote mid_quote,
                     ProcessFill_wired ''SELL'' (1 / 2) 4 (1 / 2),
                     ApplyRiskAdjustment mid_quote HALT]"
    by simp
  from halt_sticky [OF a b c, of default_config mid_quote] a b c show ?thesis by blast
qed

text \<open>
  Claim C1 as stated fails: \<open>resetForNewMarket\<close>, which is not an \<open>unhalt\<close> call, clears
  the flag of a halted agent, and the next \<open>checkQuote\<close> returns \<open>ALLOW\<close>.
\<close>

theorem halt_cleared_by_reset_counterexample:
  "halted (risk_init\<lparr>halted := True\<rparr>)
   \<and> Unhalt \<notin> set [ResetForNewMarket]
   \<and> \<not> halted (risk_run default_config [ResetForNewMarket] (risk_init\<lparr>halted := True\<rparr>))
   \<and> fst (checkQuote default_config mid_quote
        (risk_run default_config [ResetForNewMarket] (risk_init\<lparr>halted := True\<rparr>))) = ALLOW"
  by (simp add: risk_resetForNewMarket_def checkQuote_def flat_position_def default_config_def
      fairValue_or_half_def mid_quote_def)

text \<open>
  Claim C6. A \<open>BUY\<close> fill of size \<open>sz\<close> at \<open>price\<close> adds \<open>sz\<close> to the net shares,
  leaves \<open>realizedPnl\<close> and, when the new share count is not zero, makes
  \<open>avgEntryPrice\<close> the volume-weighted average of the prior position and the fill; a
  fill of any other side, \<open>SELL\<close> in particular, adds \<open>(price - avgEntryPrice) \<times> sz\<close> to
  \<open>realizedPnl\<close>, takes \<open>sz\<close> off the net shares and keeps \<open>avgEntryPrice\<close>; after
  every fill \<open>netDelta\<close> is the net share count. Starting flat, a BUY of 10 at 0.45 gives
  \<open>avgEntryPrice = 0.45\<close> and \<open>netDelta = 10\<close>, and a following SELL of 4 at 0.50
  realizes 0.20, leaving \<open>netDelta = 6\<close> and \<open>avgEntryPrice = 0.45\<close>. A BUY that brings
  the share count to zero is where the code departs from the claim: starting flat, after
  a SELL of 50 at 0.5 a BUY of 50 at 0.5 divides the cost 25 by the share count 0, and no
  value of \<open>avgEntryPrice\<close> is then the volume-weighted average.
\<close>

theorem processFill_position:
  "(let p = position s; p' = position (fst (processFill cfg ''BUY'' price sz s))
    in yesShares p' = yesShares p + sz
     \<and> netDelta p' = yesShares p'
     \<and> realizedPnl p' = realizedPnl p
     \<and> (yesShares p + sz \<noteq> 0 \<longrightarrow>
          avgEntryPrice p' = (avgEntryPrice p * yesShares p + price * sz) / (yesShares p + sz)
        \<and> avgEntryPrice p' * yesShares p' = avgEntryPrice p * yesShares p + price * sz))
   \<and> (side \<noteq> ''BUY'' \<longrightarrow>
      (let p = position s; p' = position (fst (processFill cfg side price sz s))
       in realizedPnl p' = realizedPnl p + (price - avgEntryPrice p) * sz
        \<and> yesShares p' = yesShares p - sz
        \<and> avgEntryPrice p' = avgEntryPrice p
        \<and> netDelta p' = yesShares p'))
   \<and> (let s1 = fst (processFill cfg ''BUY'' (45 / 100) 10 risk_init);
           s2 = fst (processFill cfg ''SELL'' (50 / 100) 4 s1)
       in avgEntryPrice (position s1) = 45 / 100 \<and> netDelta (position s1) = 10
        \<and> realizedPnl (position s1) = 0
        \<and> realizedPnl (position s2) = 20 / 100 \<and> netDelta (position s2) = 6
        \<and> avgEntryPrice (position s2) = 45 / 100)
   \<and> (let s1 = fst (processFill cfg ''SELL'' (1 / 2) 50 risk_init);
           s2 = fst (processFill cfg ''BUY'' (1 / 2) 50 s1)
       in yesShares (position s1) = - 50
        \<and> yesShares (position s1) + 50 = 0
        \<and> avgEntryPrice (position s1) * yesShares (position s1) + (1 / 2) * 50 = 25
        \<and> yesShares (position s2) = 0
        \<and> avgEntryPrice (position s2) * yesShares (position s2)
             \<noteq> avgEntryPrice (position s1) * yesShares (position s1) + (1 / 2) * 50)"
  by (simp add: fst_processFill_position fill_position_def Let_def risk_init_def
      flat_position_def)

theorem processFill_position_witness:
  "yesShares (position (risk_init\<lparr>position := flat_position\<lparr>yesShares := 10,
       avgEntryPrice := 4 / 10\<rparr>\<rparr>)) + 30 \<noteq> 0
   \<and> ''SELL'' \<noteq> ''BUY''
   \<and> avgEntryPrice (position (fst (processFill default_config ''BUY'' (6 / 10) 30
       (risk_init\<lparr>position := flat_position\<lparr>yesShares := 10, avgEntryPrice := 4 / 10\<rparr>\<rparr>))))
     = 55 / 100
   \<and> realizedPnl (position (fst (processFill default_config ''SELL'' (6 / 10) 5
       (risk_init\<lparr>position := flat_position\<lparr>yesShares := 10, avgEntryPrice := 4 / 10\<rparr>\<rparr>))))
     = 1"
  using processFill_position [of "risk_init\<lparr>position := flat_position\<lparr>yesShares := 10,
       avgEntryPrice := 4 / 10\<rparr>\<rparr>" default_config "6 / 10" 30 "''SELL''"]
    processFill_position [of "risk_init\<lparr>position := flat_position\<lparr>yesShares := 10,
       avgEntryPrice := 4 / 10\<rparr>\<rparr>" default_config "6 / 10" 5 "''SELL''"]
  by (simp add: Let_def risk_init_def flat_position_def)

section \<open>ExecutionAgent: properties\<close>

lemma cancelAndReplace_settle_guard:
  "\<not> cancelInFlight (fst (snd (cancelAndReplace_settle w c s)))"
  by (auto simp: cancelAndReplace_settle_def Let_def split: sum.splits prod.splits)

lemma cancelAndReplace_dropped:
  "cancelInFlight s \<Longrightarrow> cancelAndReplace w q n0 n1 s = (zero_timings, s, [], [])"
  by (auto simp: cancelAndReplace_def cancelAndReplace_begin_def split: option.splits)

lemma exec_step_dropped:
  "cancelInFlight (agent sys) \<Longrightarrow> exec_step (Call_cancelAndReplace q n0 n1) sys = sys"
  by (auto simp: cancelAndReplace_begin_def split: option.splits)

lemma cancelAndReplace_settle_guard':
  "cancelAndReplace_settle w c s = (t, s', evs, calls) \<Longrightarrow> \<not> cancelInFlight s'"
  using cancelAndReplace_settle_guard [of w c s] by simp

lemma cancelAndReplace_guard_after:
  "\<not> cancelInFlight s \<Longrightarrow> \<not> cancelInFlight (fst (snd (cancelAndReplace w q n0 n1 s)))"
  by (auto simp: cancelAndReplace_def cancelAndReplace_begin_def Let_def
      split: option.splits prod.splits dest: cancelAndReplace_settle_guard')

lemma exec_step_inv: "exec_inv sys \<Longrightarrow> exec_inv (exec_step op sys)"
  by (cases op)
     (auto simp: exec_inv_def cancelAndReplace_begin_def cancelAndReplace_settle_guard
        handleFill_def Let_def cancelAll_def setMarket_assign_def fetchFeeRate_def
        split: option.splits sum.splits prod.splits if_splits)

lemma exec_run_inv: "exec_inv sys \<Longrightarrow> exec_inv (exec_run ops sys)"
  by (induction ops arbitrary: sys) (simp_all add: exec_step_inv)

lemma exec_inv_init: "exec_inv exec_sys_init"
  by (simp add: exec_inv_def exec_sys_init_def exec_init_def)

lemma cancelAndReplace_settle_failed:
  "isl (signBid w) \<or> isl (signAsk w) \<Longrightarrow>
     \<exists>t e. cancelAndReplace_settle w c s = (t, s\<lparr>cancelInFlight := False\<rparr>, [Cycle_error e], [])"
  by (auto simp: cancelAndReplace_settle_def split: sum.splits)

lemma cancelAndReplace_settle_ok:
  "\<not> isl (signBid w) \<Longrightarrow> \<not> isl (signAsk w) \<Longrightarrow>
     \<exists>t. fst (snd (snd (cancelAndReplace_settle w c s))) = [Cycle_complete t]"
  by (auto simp: cancelAndReplace_settle_def Let_def split: sum.splits prod.splits)

lemma cancelExisting_no_post:
  "Post_orders a b \<notin> set (cancelExisting s) \<and> Post_order a \<notin> set (cancelExisting s)"
  by (auto simp: cancelExisting_def Let_def split: option.splits)

lemma cancelAndReplace_sign_fails_run:
  "cancelAndReplace world_sign_fails mid_quote 0 1
       (exec_init\<lparr>market := Some market0, active := resting0\<rparr>)
     = (\<lparr> cycleMs = 5, signMs = 0, cancelMs = 0, submitMs = 0 \<rparr>,
        exec_init\<lparr>market := Some market0, active := resting0\<rparr>,
        [Cycle_error ''signing failed''],
        [Sign_order ''101'' 0 (49 / 100) 50, Sign_order ''101'' 1 (51 / 100) 50,
         Delete_cancel_market_orders ''0xc0'' ''101''])"
  by (simp add: cancelAndReplace_def cancelAndReplace_begin_def cancelAndReplace_settle_def
      world_sign_fails_def world_http_down_def exec_init_def market0_def resting0_def
      mid_quote_def cancelExisting_def truthy_id_def Let_def)

text \<open>
  Claim C3, as the code has it. A cycle fails, and emits \<open>cycle_error\<close>, exactly when it
  was started and a signing promise rejects: the exceptions of the cancel request and of
  the submissions are caught where they arise and do not fail the cycle. A failed cycle
  leaves the \<open>ActiveOrderSet\<close>, and the whole agent, as before the call and posts no
  order; and whatever ran between the call and the failure, the failure itself writes
  nothing to the \<open>ActiveOrderSet\<close>.
\<close>

theorem cancelAndReplace_failure_atomic:
  assumes "cancelAndReplace w q n0 n1 s = (t, s', evs, calls)"
  shows "((\<exists>e. evs = [Cycle_error e])
           = (market s \<noteq> None \<and> \<not> cancelInFlight s \<and> (isl (signBid w) \<or> isl (signAsk w))))
       \<and> ((\<exists>e. evs = [Cycle_error e]) \<longrightarrow>
             active s' = active s \<and> s' = s
             \<and> (\<forall>a b. Post_orders a b \<notin> set calls) \<and> (\<forall>a. Post_order a \<notin> set calls))
       \<and> (isl (signBid w) \<or> isl (signAsk w) \<longrightarrow>
             active (fst (snd (cancelAndReplace_settle w c s2))) = active s2)"
proof (cases "market s = None \<or> cancelInFlight s")
  case True
  then have "cancelAndReplace w q n0 n1 s = (zero_timings, s, [], [])"
    by (auto simp: cancelAndReplace_def cancelAndReplace_begin_def split: option.splits)
  with assms have "evs = []" by simp
  moreover have "isl (signBid w) \<or> isl (signAsk w) \<longrightarrow>
             active (fst (snd (cancelAndReplace_settle w c s2))) = active s2"
    using cancelAndReplace_settle_failed [of w c s2] by auto
  ultimately show ?thesis using True by auto
next
  case False
  then obtain m where m: "market s = Some m" and g: "\<not> cancelInFlight s" by auto
  let ?c = "\<lparr> cycle_quote = q, cycleStart = n0, signStart = n1 \<rparr>"
  let ?s1 = "s\<lparr>cancelInFlight := True\<rparr>"
  let ?calls1 = "[Sign_order (yesTokenId m) 0 (bidPrice q) (bidSize q),
                  Sign_order (yesTokenId m) 1 (askPrice q) (askSize q)] @ cancelExisting ?s1"
  have b: "cancelAndReplace_begin q n0 n1 s = (Started ?c, ?s1, ?calls1)"
    using m g by (simp add: cancelAndReplace_begin_def Let_def)
  have r: "(t, s', evs, calls) =
      (let (t, s2, evs, calls2) = cancelAndReplace_settle w ?c ?s1
       in (t, s2, evs, ?calls1 @ calls2))"
    using assms b by (simp add: cancelAndReplace_def)
  have third: "isl (signBid w) \<or> isl (signAsk w) \<longrightarrow>
             active (fst (snd (cancelAndReplace_settle w c s2))) = active s2"
    using cancelAndReplace_settle_failed [of w c s2] by auto
  show ?thesis
  proof (cases "isl (signBid w) \<or> isl (signAsk w)")
    case True
    then obtain t0 e where
      "cancelAndReplace_settle w ?c ?s1 = (t0, ?s1\<lparr>cancelInFlight := False\<rparr>, [Cycle_error e], [])"
      using cancelAndReplace_settle_failed [of w ?c ?s1] by blast
    with r have "evs = [Cycle_error e]" and "s' = ?s1\<lparr>cancelInFlight := False\<rparr>"
      and "calls = ?calls1"
      by simp_all
    moreover have "?s1\<lparr>cancelInFlight := False\<rparr> = s" using g by simp
    ultimately show ?thesis
      using True m g third cancelExisting_no_post [of _ _ ?s1] by auto
  next
    case False
    then obtain t0 where "fst (snd (snd (cancelAndReplace_settle w ?c ?s1))) = [Cycle_complete t0]"
      using cancelAndReplace_settle_ok [of w ?c ?s1] by blast
    with r have "evs = [Cycle_complete t0]"
      by (simp add: Let_def split: prod.splits)
    then show ?thesis using False third by auto
  qed
qed

theorem cancelAndReplace_failure_atomic_witness:
  "cancelAndReplace world_sign_fails mid_quote 0 1
       (exec_init\<lparr>market := Some market0, active := resting0\<rparr>)
     = (\<lparr> cycleMs = 5, signMs = 0, cancelMs = 0, submitMs = 0 \<rparr>,
        exec_init\<lparr>market := Some market0, active := resting0\<rparr>,
        [Cycle_error ''signing failed''],
        [Sign_order ''101'' 0 (49 / 100) 50, Sign_order ''101'' 1 (51 / 100) 50,
         Delete_cancel_market_orders ''0xc0'' ''101''])
   \<and> isl (signAsk world_sign_fails)
   \<and> active (exec_init\<lparr>market := Some market0, active := resting0\<rparr>) = resting0
   \<and> active (fst (snd (cancelAndReplace_settle world_sign_fails
         \<lparr> cycle_quote = mid_quote, cycleStart = 0, signStart = 1 \<rparr>
         (fst (handleFill ''b1'' 20 ''BUY''
            (exec_init\<lparr>market := Some market0, active := resting0, cancelInFlight := True\<rparr>))))))
      = resting0\<lparr>activeBidSize := 30\<rparr>"
proof -
  have s: "isl (signAsk world_sign_fails)" by (simp add: world_sign_fails_def)
  have f: "active (fst (handleFill ''b1'' 20 ''BUY''
            (exec_init\<lparr>market := Some market0, active := resting0, cancelInFlight := True\<rparr>)))
          = resting0\<lparr>activeBidSize := 30\<rparr>"
    by (simp add: handleFill_def resting0_def Let_def)
  from cancelAndReplace_failure_atomic [OF cancelAndReplace_sign_fails_run,
      of "\<lparr> cycle_quote = mid_quote, cycleStart = 0, signStart = 1 \<rparr>"
         "fst (handleFill ''b1'' 20 ''BUY''
            (exec_init\<lparr>market := Some market0, active := resting0, cancelInFlight := True\<rparr>))"]
    s f cancelAndReplace_sign_fails_run
  show ?thesis by simp
qed

text \<open>
  Claim C3 as stated fails: here the cancel request and every submission request throw,
  the cycle emits \<open>cycle_complete\<close> and no error signal, and the \<open>ActiveOrderSet\<close> is
  overwritten with the quote's prices and sizes and absent order identifiers.
\<close>

theorem cancelAndReplace_swallowed_exceptions_counterexample:
  "isl (cancelHttp world_http_down) \<and> isl (batchHttp world_http_down)
   \<and> isl (singleBidHttp world_http_down) \<and> isl (singleAskHttp world_http_down)
   \<and> active (exec_init\<lparr>market := Some market0, active := resting0\<rparr>) = resting0
   \<and> fst (snd (snd (cancelAndReplace world_http_down mid_quote 0 1
        (exec_init\<lparr>market := Some market0, active := resting0\<rparr>))))
      = [Cycle_complete \<lparr> cycleMs = 5, signMs = 1, cancelMs = 1, submitMs = 3 \<rparr>]
   \<and> active (fst (snd (cancelAndReplace world_http_down mid_quote 0 1
        (exec_init\<lparr>market := Some market0, active := resting0\<rparr>))))
      = \<lparr> bidOrderId = None, askOrderId = None, activeBidPrice = 49 / 100,
          activeAskPrice = 51 / 100, activeBidSize = 50, activeAskSize = 50 \<rparr>
   \<and> active (fst (snd (cancelAndReplace world_http_down mid_quote 0 1
        (exec_init\<lparr>market := Some market0, active := resting0\<rparr>))))
      \<noteq> active (exec_init\<lparr>market := Some market0, active := resting0\<rparr>)"
  by (simp add: cancelAndReplace_def cancelAndReplace_begin_def cancelAndReplace_settle_def
      submitOrdersBatch_def submitSingle_def
      world_http_down_def exec_init_def market0_def resting0_def
      mid_quote_def cancelExisting_def truthy_id_def Let_def)

text \<open>
  Claim C8. A \<open>cancelAndReplace\<close> call made while the guard is set is dropped: it returns
  zero timings, emits nothing, makes no request and leaves the whole agent unchanged, and
  no cycle is added to the pending ones. Through every sequence of calls, settlements,
  fills, cancel-alls and market changes from the initial state at most one cycle is
  pending, and the guard is set exactly while one is. The guard is released when a cycle
  settles, whether it completes or fails.
\<close>

theorem in_flight_guard:
  "(cancelInFlight s \<longrightarrow> cancelAndReplace w q n0 n1 s = (zero_timings, s, [], []))
   \<and> (cancelInFlight (agent sys) \<longrightarrow> exec_step (Call_cancelAndReplace q n0 n1) sys = sys)
   \<and> length (in_progress (exec_run ops exec_sys_init)) \<le> 1
   \<and> cancelInFlight (agent (exec_run ops exec_sys_init))
       = (in_progress (exec_run ops exec_sys_init) \<noteq> [])
   \<and> \<not> cancelInFlight (fst (snd (cancelAndReplace_settle w c s)))
   \<and> (\<not> cancelInFlight s \<longrightarrow> \<not> cancelInFlight (fst (snd (cancelAndReplace w q n0 n1 s))))"
proof -
  have "exec_inv (exec_run ops exec_sys_init)"
    using exec_inv_init by (rule exec_run_inv)
  then have "length (in_progress (exec_run ops exec_sys_init)) \<le> 1
     \<and> cancelInFlight (agent (exec_run ops exec_sys_init))
         = (in_progress (exec_run ops exec_sys_init) \<noteq> [])"
    by (simp add: exec_inv_def)
  then show ?thesis
    using cancelAndReplace_dropped [of s w q n0 n1] exec_step_dropped [of sys q n0 n1]
      cancelAndReplace_settle_guard [of w c s] cancelAndReplace_guard_after [of s w q n0 n1]
    by blast
qed

theorem in_flight_guard_witness:
  "cancelInFlight (exec_init\<lparr>market := Some market0, active := resting0, cancelInFlight := True\<rparr>)
   \<and> cancelAndReplace world_http_down mid_quote 0 1
        (exec_init\<lparr>market := Some market0, active := resting0, cancelInFlight := True\<rparr>)
      = (zero_timings,
         exec_init\<lparr>market := Some market0, active := resting0, cancelInFlight := True\<rparr>, [], [])
   \<and> exec_step (Call_cancelAndReplace mid_quote 2 3)
        \<lparr> agent = exec_init\<lparr>market := Some market0, active := resting0, cancelInFlight := True\<rparr>,
          in_progress = [\<lparr> cycle_quote = mid_quote, cycleStart = 0, signStart = 1 \<rparr>] \<rparr>
      = \<lparr> agent = exec_init\<lparr>market := Some market0, active := resting0, cancelInFlight := True\<rparr>,
          in_progress = [\<lparr> cycle_quote = mid_quote, cycleStart = 0, signStart = 1 \<rparr>] \<rparr>
   \<and> \<not> cancelInFlight (exec_init\<lparr>market := Some market0\<rparr>)
   \<and> \<not> cancelInFlight (fst (snd (cancelAndReplace world_sign_fails mid_quote 0 1
        (exec_init\<lparr>market := Some market0\<rparr>))))
   \<and> length (in_progress (exec_run
        [SetMarket_assign market0, Call_cancelAndReplace mid_quote 0 1,
         Call_cancelAndReplace mid_quote 2 3, Settle 0 world_sign_fails,
         Call_cancelAndReplace mid_quote 4 5] exec_sys_init)) = 1"
proof -
  let ?busy = "exec_init\<lparr>market := Some market0, active := resting0, cancelInFlight := True\<rparr>"
  let ?sys = "\<lparr> agent = ?busy,
          in_progress = [\<lparr> cycle_quote = mid_quote, cycleStart = 0, signStart = 1 \<rparr>] \<rparr>"
  have a: "cancelInFlight ?busy" by simp
  have a': "cancelInFlight (agent ?sys)" by simp
  have b: "\<not> cancelInFlight (exec_init\<lparr>market := Some market0\<rparr>)"
    by (simp add: exec_init_def)
  have c: "length (in_progress (exec_run
        [SetMarket_assign market0, Call_cancelAndReplace mid_quote 0 1,
         Call_cancelAndReplace mid_quote 2 3, Settle 0 world_sign_fails,
         Call_cancelAndReplace mid_quote 4 5] exec_sys_init)) = 1"
    by (simp add: exec_sys_init_def exec_init_def setMarket_assign_def
        cancelAndReplace_begin_def cancelAndReplace_settle_def world_sign_fails_def
        world_http_down_def Let_def)
  have d: "cancelAndReplace world_http_down mid_quote 0 1 ?busy = (zero_timings, ?busy, [], [])"
    using in_flight_guard [of ?busy world_http_down mid_quote 0 1] a by blast
  have e: "exec_step (Call_cancelAndReplace mid_quote 2 3) ?sys = ?sys"
    using in_flight_guard [of _ _ mid_quote 2 3 ?sys] a' by blast
  have f: "\<not> cancelInFlight (fst (snd (cancelAndReplace world_sign_fails mid_quote 0 1
        (exec_init\<lparr>market := Some market0\<rparr>))))"
    using in_flight_guard [of "exec_init\<lparr>market := Some market0\<rparr>" world_sign_fails
        mid_quote 0 1] b by blast
  from a b c d e f show ?thesis by blast
qed

text \<open>
  Claim C10. \<open>handleFill\<close> keeps the remaining bid and ask sizes non-negative; the size of
  the side whose order the fill names is never negative afterwards, and a fill at least as
  large as the remaining size leaves it zero and clears that side's order identifier; a
  fill that names neither active order leaves the agent unchanged.
\<close>

theorem handleFill_sizes:
  "(let s' = fst (handleFill oid filled fside s) in
    (0 \<le> activeBidSize (active s) \<and> 0 \<le> activeAskSize (active s)
       \<longrightarrow> 0 \<le> activeBidSize (active s') \<and> 0 \<le> activeAskSize (active s'))
  \<and> (Some oid = bidOrderId (active s)
       \<longrightarrow> 0 \<le> activeBidSize (active s')
         \<and> (activeBidSize (active s) \<le> filled
              \<longrightarrow> activeBidSize (active s') = 0 \<and> bidOrderId (active s') = None))
  \<and> (Some oid \<noteq> bidOrderId (active s) \<and> Some oid = askOrderId (active s)
       \<longrightarrow> 0 \<le> activeAskSize (active s')
         \<and> (activeAskSize (active s) \<le> filled
              \<longrightarrow> activeAskSize (active s') = 0 \<and> askOrderId (active s') = None))
  \<and> (Some oid \<noteq> bidOrderId (active s) \<and> Some oid \<noteq> askOrderId (active s)
       \<longrightarrow> s' = s))"
  by (auto simp: handleFill_def Let_def)

theorem handleFill_sizes_witness:
  "0 \<le> activeBidSize (active (exec_init\<lparr>active := resting0\<rparr>))
   \<and> 0 \<le> activeAskSize (active (exec_init\<lparr>active := resting0\<rparr>))
   \<and> Some ''b1'' = bidOrderId (active (exec_init\<lparr>active := resting0\<rparr>))
   \<and> activeBidSize (active (exec_init\<lparr>active := resting0\<rparr>)) \<le> 80
   \<and> active (fst (handleFill ''b1'' 80 ''BUY'' (exec_init\<lparr>active := resting0\<rparr>)))
       = resting0\<lparr>bidOrderId := None, activeBidSize := 0\<rparr>
   \<and> Some ''a1'' \<noteq> bidOrderId (active (exec_init\<lparr>active := resting0\<rparr>))
   \<and> Some ''a1'' = askOrderId (active (exec_init\<lparr>active := resting0\<rparr>))
   \<and> activeAskSize (active (exec_init\<lparr>active := resting0\<rparr>)) \<le> 50
   \<and> activeAskSize (active (fst (handleFill ''a1'' 50 ''SELL'' (exec_init\<lparr>active := resting0\<rparr>))))
       = 0
   \<and> askOrderId (active (fst (handleFill ''a1'' 50 ''SELL'' (exec_init\<lparr>active := resting0\<rparr>))))
       = None
   \<and> Some ''zz'' \<noteq> bidOrderId (active (exec_init\<lparr>active := resting0\<rparr>))
   \<and> Some ''zz'' \<noteq> askOrderId (active (exec_init\<lparr>active := resting0\<rparr>))
   \<and> fst (handleFill ''zz'' 80 ''BUY'' (exec_init\<lparr>active := resting0\<rparr>))
       = exec_init\<lparr>active := resting0\<rparr>"
proof -
  let ?s = "exec_init\<lparr>active := resting0\<rparr>"
  have h: "0 \<le> activeBidSize (active ?s)" "0 \<le> activeAskSize (active ?s)"
    "Some ''b1'' = bidOrderId (active ?s)" "activeBidSize (active ?s) \<le> 80"
    "Some ''a1'' \<noteq> bidOrderId (active ?s)" "Some ''a1'' = askOrderId (active ?s)"
    "activeAskSize (active ?s) \<le> 50"
    "Some ''zz'' \<noteq> bidOrderId (active ?s)" "Some ''zz'' \<noteq> askOrderId (active ?s)"
    by (simp_all add: resting0_def)
  have b: "active (fst (handleFill ''b1'' 80 ''BUY'' ?s))
       = resting0\<lparr>bidOrderId := None, activeBidSize := 0\<rparr>"
    by (simp add: handleFill_def resting0_def Let_def)
  have a: "activeAskSize (active (fst (handleFill ''a1'' 50 ''SELL'' ?s))) = 0
         \<and> askOrderId (active (fst (handleFill ''a1'' 50 ''SELL'' ?s))) = None"
    using handleFill_sizes [of "''a1''" 50 "''SELL''" ?s] h
    by (simp only: Let_def) blast
  have z: "fst (handleFill ''zz'' 80 ''BUY'' ?s) = ?s"
    using handleFill_sizes [of "''zz''" 80 "''BUY''" ?s] h
    by (simp only: Let_def) blast
  from h b a z show ?thesis by blast
qed

section \<open>MarketManager: properties\<close>



















section \<open>QuotingAgent: properties\<close>

lemma tick_multiple_of_int: "t \<noteq> 0 \<Longrightarrow> tick_multiple (of_int k * t) t"
  by (simp add: tick_multiple_def)

lemma tick_multiple_iff: "t \<noteq> 0 \<Longrightarrow> tick_multiple x t = (\<exists>k::int. x = of_int k * t)"
  by (auto simp: tick_multiple_def intro: sym)

lemma tick_multiple_self: "t \<noteq> 0 \<Longrightarrow> tick_multiple t t"
  using tick_multiple_of_int [of t 1] by simp

lemma tick_multiple_one_minus:
  assumes "t \<noteq> 0" and "tick_multiple 1 t"
  shows "tick_multiple (1 - t) t"
proof -
  from assms obtain k :: int where k: "1 = of_int k * t"
    by (auto simp: tick_multiple_iff)
  have "1 - t = of_int (k - 1) * t"
    using k by (simp add: algebra_simps)
  then show ?thesis
    using assms(1) tick_multiple_of_int by metis
qed

lemma roundToTick_multiple: "t \<noteq> 0 \<Longrightarrow> tick_multiple (roundToTick p t) t"
  by (simp add: roundToTick_def tick_multiple_of_int)

lemma clampPrice_multiple:
  "0 < t \<Longrightarrow> tick_multiple 1 t \<Longrightarrow> tick_multiple (clampPrice p t) t"
  using tick_multiple_self [of t] tick_multiple_one_minus [of t] roundToTick_multiple [of t p]
  by (auto simp: clampPrice_def max_def min_def)

lemma clampPrice_lower: "t \<le> clampPrice p t"
  by (simp add: clampPrice_def)

lemma clampPrice_upper: "t \<le> 1 - t \<Longrightarrow> clampPrice p t \<le> 1 - t"
  by (simp add: clampPrice_def)

lemma clampPrice_wide_tick: "\<not> t \<le> 1 - t \<Longrightarrow> clampPrice p t = t"
  by (simp add: clampPrice_def max_def min_def)

lemma computeQuote_Some:
  assumes "computeQuote cfg now f s = (Some q, s', evs)"
  shows "0 < f \<and> f < 1
       \<and> bidPrice q = clampPrice (f - computeSpread cfg s / 2
                          + - netDelta (quotePosition s) * INVENTORY_SKEW_FACTOR cfg) (quoteTickSize s)
       \<and> askPrice q = clampPrice (f + computeSpread cfg s / 2
                          + - netDelta (quotePosition s) * INVENTORY_SKEW_FACTOR cfg) (quoteTickSize s)
       \<and> bidPrice q < askPrice q
       \<and> s' = s\<lparr>lastQuote := Some q\<rparr>
       \<and> evs = (if shouldRequote cfg q s then [New_quote q] else [])"
  using assms by (auto simp: computeQuote_def Let_def split: if_splits)

lemma computeQuote_None:
  "fst (computeQuote cfg now f s) = None \<Longrightarrow> computeQuote cfg now f s = (None, s, [])"
  by (auto simp: computeQuote_def Let_def split: if_splits)

lemma quote_run_cent:
  "computeQuote default_config 7 (1 / 2) (setTickSize (1 / 100) quoting_init)
     = (Some \<lparr> bidPrice = 49 / 100, askPrice = 51 / 100, bidSize = 50, askSize = 50,
               fairValue = 1 / 2, spread = 2 / 100, timestamp = 7 \<rparr>,
        setTickSize (1 / 100) quoting_init
          \<lparr>lastQuote := Some \<lparr> bidPrice = 49 / 100, askPrice = 51 / 100, bidSize = 50,
               askSize = 50, fairValue = 1 / 2, spread = 2 / 100, timestamp = 7 \<rparr>\<rparr>,
        [New_quote \<lparr> bidPrice = 49 / 100, askPrice = 51 / 100, bidSize = 50, askSize = 50,
               fairValue = 1 / 2, spread = 2 / 100, timestamp = 7 \<rparr>])"
  by (simp add: computeQuote_def setTickSize_def quoting_init_def default_config_def
      computeSpread_def clampPrice_def roundToTick_def js_round_def shouldRequote_def
      flat_position_def Let_def)

lemma quote_run_cent':
  "computeQuote default_config 7 (1 / 2) (setTickSize (1 / 100) quoting_init)
     = (Some (cent_quote 7), setTickSize (1 / 100) quoting_init\<lparr>lastQuote := Some (cent_quote 7)\<rparr>,
        [New_quote (cent_quote 7)])"
  by (simp add: quote_run_cent cent_quote_def)

lemma quote_run_cent_again:
  "computeQuote default_config 9 (501 / 1000)
       (setTickSize (1 / 100) quoting_init\<lparr>lastQuote := Some (cent_quote 7)\<rparr>)
     = (Some ((cent_quote 9)\<lparr>fairValue := 501 / 1000\<rparr>),
        setTickSize (1 / 100) quoting_init
          \<lparr>lastQuote := Some ((cent_quote 9)\<lparr>fairValue := 501 / 1000\<rparr>)\<rparr>,
        [])"
  by (simp add: computeQuote_def setTickSize_def quoting_init_def default_config_def
      computeSpread_def clampPrice_def roundToTick_def js_round_def shouldRequote_def
      flat_position_def cent_quote_def Let_def)

lemma shouldRequote_worthy: "shouldRequote cfg q s = requote_worthy cfg (lastQuote s) q"
  by (simp add: shouldRequote_def requote_worthy_def relative_change_bps_def Let_def
      split: option.splits)

lemma computeQuote_cases:
  "(\<exists>q. computeQuote cfg now fv s
          = (Some q, s\<lparr>lastQuote := Some q\<rparr>,
             if requote_worthy cfg (lastQuote s) q then [New_quote q] else []))
   \<or> computeQuote cfg now fv s = (None, s, [])"
  by (simp add: computeQuote_def Let_def shouldRequote_worthy)

lemma quoting_run_gate:
  "map snd (fst (quoting_run cfg ops s))
      = gate_flags cfg (lastQuote s) (map fst (fst (quoting_run cfg ops s)))
   \<and> lastQuote (snd (quoting_run cfg ops s))
      = (if fst (quoting_run cfg ops s) = [] then lastQuote s
         else Some (fst (last (fst (quoting_run cfg ops s)))))"
proof (induction ops arbitrary: s)
  case Nil
  show ?case by simp
next
  case (Cons op ops)
  show ?case
  proof (cases op)
    case (ComputeQuote now fv)
    from computeQuote_cases [of cfg now fv s] show ?thesis
    proof (elim disjE exE)
      fix q
      assume c: "computeQuote cfg now fv s
          = (Some q, s\<lparr>lastQuote := Some q\<rparr>,
             if requote_worthy cfg (lastQuote s) q then [New_quote q] else [])"
      from Cons.IH [of "s\<lparr>lastQuote := Some q\<rparr>"] c ComputeQuote show ?thesis
        by (auto simp: Let_def split: prod.splits)
    next
      assume "computeQuote cfg now fv s = (None, s, [])"
      with Cons.IH [of s] ComputeQuote show ?thesis by simp
    qed
  next
    case (UpdateMarketData price vol)
    with Cons.IH [of "updateMarketData price vol s"] show ?thesis
      by (simp add: updateMarketData_def)
  next
    case (UpdatePosition pos)
    with Cons.IH [of "updatePosition pos s"] show ?thesis
      by (simp add: updatePosition_def)
  next
    case (SetTickSize t)
    with Cons.IH [of "setTickSize t s"] show ?thesis
      by (simp add: setTickSize_def)
  qed
qed

lemma quoting_run_cent:
  "quoting_run default_config
       [SetTickSize (1 / 100), ComputeQuote 7 (1 / 2), ComputeQuote 9 (501 / 1000),
        ComputeQuote 11 1] quoting_init
     = ([(cent_quote 7, True), ((cent_quote 9)\<lparr>fairValue := 501 / 1000\<rparr>, False)],
        setTickSize (1 / 100) quoting_init
          \<lparr>lastQuote := Some ((cent_quote 9)\<lparr>fairValue := 501 / 1000\<rparr>)\<rparr>)"
proof -
  have n: "computeQuote default_config 11 1
             (setTickSize (1 / 100) quoting_init
                \<lparr>lastQuote := Some ((cent_quote 9)\<lparr>fairValue := 501 / 1000\<rparr>)\<rparr>)
           = (None, setTickSize (1 / 100) quoting_init
                \<lparr>lastQuote := Some ((cent_quote 9)\<lparr>fairValue := 501 / 1000\<rparr>)\<rparr>, [])"
    by (simp add: computeQuote_def)
  show ?thesis
    by (simp add: quote_run_cent' quote_run_cent_again n)
qed

text \<open>
  Claim C5, as the code has it. For every tick size \<open>t > 0\<close> of which \<open>1\<close> is an exact
  multiple (\<open>1/t\<close> is an integer, as for the venue's ticks 0.1, 0.01, 0.001 and 0.0001)
  and every fair value \<open>f\<close>, \<open>computeQuote\<close> returns none or a quote whose bid and ask
  are exact multiples of \<open>t\<close>, lie in \<open>[t, 1 - t]\<close> and satisfy \<open>bid < ask\<close>; for
  \<open>f\<close> outside the open interval \<open>(0, 1)\<close> it returns none, whatever the tick.
\<close>

theorem computeQuote_ticks:
  "(0 < quoteTickSize s \<and> tick_multiple 1 (quoteTickSize s)
      \<and> computeQuote cfg now f s = (Some q, s', evs) \<longrightarrow>
        tick_multiple (bidPrice q) (quoteTickSize s)
      \<and> tick_multiple (askPrice q) (quoteTickSize s)
      \<and> quoteTickSize s \<le> bidPrice q \<and> bidPrice q \<le> 1 - quoteTickSize s
      \<and> quoteTickSize s \<le> askPrice q \<and> askPrice q \<le> 1 - quoteTickSize s
      \<and> bidPrice q < askPrice q)
   \<and> (f \<le> 0 \<or> 1 \<le> f \<longrightarrow> computeQuote cfg now f s = (None, s, []))"
proof -
  have "f \<le> 0 \<or> 1 \<le> f \<longrightarrow> computeQuote cfg now f s = (None, s, [])"
    by (auto simp: computeQuote_def)
  moreover
  { assume t: "0 < quoteTickSize s" and m: "tick_multiple 1 (quoteTickSize s)"
      and c: "computeQuote cfg now f s = (Some q, s', evs)"
    note q = computeQuote_Some [OF c]
    have w: "quoteTickSize s \<le> 1 - quoteTickSize s"
    proof (rule ccontr)
      assume "\<not> quoteTickSize s \<le> 1 - quoteTickSize s"
      then have "bidPrice q = askPrice q"
        using q by (simp add: clampPrice_wide_tick)
      with q show False by simp
    qed
    have "tick_multiple (bidPrice q) (quoteTickSize s)
      \<and> tick_multiple (askPrice q) (quoteTickSize s)
      \<and> quoteTickSize s \<le> bidPrice q \<and> bidPrice q \<le> 1 - quoteTickSize s
      \<and> quoteTickSize s \<le> askPrice q \<and> askPrice q \<le> 1 - quoteTickSize s
      \<and> bidPrice q < askPrice q"
      using q t m w by (simp add: clampPrice_multiple clampPrice_lower clampPrice_upper)
  }
  ultimately show ?thesis by blast
qed

theorem computeQuote_ticks_witness:
  "0 < quoteTickSize (setTickSize (1 / 100) quoting_init)
   \<and> tick_multiple 1 (quoteTickSize (setTickSize (1 / 100) quoting_init))
   \<and> computeQuote default_config 7 (1 / 2) (setTickSize (1 / 100) quoting_init)
     = (Some (cent_quote 7), setTickSize (1 / 100) quoting_init\<lparr>lastQuote := Some (cent_quote 7)\<rparr>,
        [New_quote (cent_quote 7)])
   \<and> tick_multiple (bidPrice (cent_quote 7)) (quoteTickSize (setTickSize (1 / 100) quoting_init))
   \<and> tick_multiple (askPrice (cent_quote 7)) (quoteTickSize (setTickSize (1 / 100) quoting_init))
   \<and> computeQuote default_config 7 1 (setTickSize (1 / 100) quoting_init)
     = (None, setTickSize (1 / 100) quoting_init, [])"
proof -
  have a: "0 < quoteTickSize (setTickSize (1 / 100) quoting_init)"
    by (simp add: setTickSize_def)
  have b: "tick_multiple 1 (quoteTickSize (setTickSize (1 / 100) quoting_init))"
    by (simp add: setTickSize_def tick_multiple_def)
  from computeQuote_ticks [of "setTickSize (1 / 100) quoting_init" default_config 7 "1 / 2"
      "cent_quote 7" "setTickSize (1 / 100) quoting_init\<lparr>lastQuote := Some (cent_quote 7)\<rparr>"
      "[New_quote (cent_quote 7)]"]
    computeQuote_ticks [of "setTickSize (1 / 100) quoting_init" default_config 7 1]
    a b quote_run_cent'
  show ?thesis by simp
qed

text \<open>
  Claim C5 as stated fails for a tick that does not divide \<open>1\<close>: with \<open>t = 0.3\<close> and
  \<open>f = 0.75\<close> the raw ask 0.76 rounds to 0.9 and is clamped to \<open>1 - t = 0.7\<close>, the bid is
  0.6, and the quote is returned although 0.7 is no multiple of 0.3.
\<close>

theorem computeQuote_ticks_counterexample:
  "0 < quoteTickSize (setTickSize (3 / 10) quoting_init)
   \<and> fst (computeQuote default_config 7 (3 / 4) (setTickSize (3 / 10) quoting_init))
     = Some \<lparr> bidPrice = 6 / 10, askPrice = 7 / 10, bidSize = 50, askSize = 50,
              fairValue = 3 / 4, spread = 1 / 10, timestamp = 7 \<rparr>
   \<and> \<not> tick_multiple (7 / 10) (3 / 10)"
  by (simp add: computeQuote_def setTickSize_def quoting_init_def default_config_def
      computeSpread_def clampPrice_def roundToTick_def js_round_def shouldRequote_def
      flat_position_def tick_multiple_def Let_def)

text \<open>
  Claim C7. Whenever \<open>computeQuote\<close> computes a quote, that quote becomes the stored last
  quote, emitted or not, and is the baseline of the next comparison. It is emitted when no
  last quote is stored (the first computed quote of a market), and otherwise exactly when
  the relative change of its bid or of its ask against the stored last quote is at least
  \<open>REQUOTE_THRESHOLD_BPS\<close>. A call that computes no quote changes nothing and emits
  nothing. With a last quote of bid 0.40 and ask 0.44 and a threshold of 50, a bid of
  0.4002 is not requote-worthy and a bid of 0.403 is. Over every sequence of
  \<open>computeQuote\<close>, \<open>updateMarketData\<close>, \<open>updatePosition\<close> and \<open>setTickSize\<close> calls
  the emitted flags of the computed quotes are those of the gate applied to each computed
  quote against its predecessor (against the quote stored at the start for the first),
  and the stored last quote at the end is the last computed quote.
\<close>

theorem requote_gate:
  "(computeQuote cfg now f s = (Some q, s', evs) \<longrightarrow>
       lastQuote s' = Some q
     \<and> (evs = [New_quote q] \<or> evs = [])
     \<and> (lastQuote s = None \<longrightarrow> evs = [New_quote q])
     \<and> (\<forall>l. lastQuote s = Some l \<and> bidPrice l \<noteq> 0 \<and> askPrice l \<noteq> 0 \<longrightarrow>
           (evs = [New_quote q])
             = (REQUOTE_THRESHOLD_BPS cfg \<le> \<bar>bidPrice q - bidPrice l\<bar> / bidPrice l * 10000
                \<or> REQUOTE_THRESHOLD_BPS cfg \<le> \<bar>askPrice q - askPrice l\<bar> / askPrice l * 10000))
     \<and> (\<forall>q2. shouldRequote cfg q2 s'
             = (REQUOTE_THRESHOLD_BPS cfg \<le> \<bar>bidPrice q2 - bidPrice q\<bar> / bidPrice q * 10000
                \<or> REQUOTE_THRESHOLD_BPS cfg \<le> \<bar>askPrice q2 - askPrice q\<bar> / askPrice q * 10000)))
   \<and> (fst (computeQuote cfg now f s) = None \<longrightarrow> computeQuote cfg now f s = (None, s, []))
   \<and> \<not> shouldRequote default_config
         \<lparr> bidPrice = 4002 / 10000, askPrice = 44 / 100, bidSize = 50, askSize = 50,
           fairValue = 42 / 100, spread = 398 / 10000, timestamp = 1 \<rparr>
         (quoting_init\<lparr>lastQuote := Some
            \<lparr> bidPrice = 40 / 100, askPrice = 44 / 100, bidSize = 50, askSize = 50,
              fairValue = 42 / 100, spread = 4 / 100, timestamp = 0 \<rparr>\<rparr>)
   \<and> shouldRequote default_config
         \<lparr> bidPrice = 403 / 1000, askPrice = 44 / 100, bidSize = 50, askSize = 50,
           fairValue = 42 / 100, spread = 37 / 1000, timestamp = 1 \<rparr>
         (quoting_init\<lparr>lastQuote := Some
            \<lparr> bidPrice = 40 / 100, askPrice = 44 / 100, bidSize = 50, askSize = 50,
              fairValue = 42 / 100, spread = 4 / 100, timestamp = 0 \<rparr>\<rparr>)
   \<and> map snd (fst (quoting_run cfg ops s))
       = gate_flags cfg (lastQuote s) (map fst (fst (quoting_run cfg ops s)))
   \<and> lastQuote (snd (quoting_run cfg ops s))
       = (if fst (quoting_run cfg ops s) = [] then lastQuote s
          else Some (fst (last (fst (quoting_run cfg ops s)))))"
proof -
  have a: "computeQuote cfg now f s = (Some q, s', evs) \<longrightarrow>
       lastQuote s' = Some q
     \<and> (evs = [New_quote q] \<or> evs = [])
     \<and> (lastQuote s = None \<longrightarrow> evs = [New_quote q])
     \<and> (\<forall>l. lastQuote s = Some l \<and> bidPrice l \<noteq> 0 \<and> askPrice l \<noteq> 0 \<longrightarrow>
           (evs = [New_quote q])
             = (REQUOTE_THRESHOLD_BPS cfg \<le> \<bar>bidPrice q - bidPrice l\<bar> / bidPrice l * 10000
                \<or> REQUOTE_THRESHOLD_BPS cfg \<le> \<bar>askPrice q - askPrice l\<bar> / askPrice l * 10000))
     \<and> (\<forall>q2. shouldRequote cfg q2 s'
             = (REQUOTE_THRESHOLD_BPS cfg \<le> \<bar>bidPrice q2 - bidPrice q\<bar> / bidPrice q * 10000
                \<or> REQUOTE_THRESHOLD_BPS cfg \<le> \<bar>askPrice q2 - askPrice q\<bar> / askPrice q * 10000))"
  proof
    assume c: "computeQuote cfg now f s = (Some q, s', evs)"
    note r = computeQuote_Some [OF c]
    from r have s': "s' = s\<lparr>lastQuote := Some q\<rparr>"
      and evs: "evs = (if shouldRequote cfg q s then [New_quote q] else [])"
      by simp_all
    show "lastQuote s' = Some q
     \<and> (evs = [New_quote q] \<or> evs = [])
     \<and> (lastQuote s = None \<longrightarrow> evs = [New_quote q])
     \<and> (\<forall>l. lastQuote s = Some l \<and> bidPrice l \<noteq> 0 \<and> askPrice l \<noteq> 0 \<longrightarrow>
           (evs = [New_quote q])
             = (REQUOTE_THRESHOLD_BPS cfg \<le> \<bar>bidPrice q - bidPrice l\<bar> / bidPrice l * 10000
                \<or> REQUOTE_THRESHOLD_BPS cfg \<le> \<bar>askPrice q - askPrice l\<bar> / askPrice l * 10000))
     \<and> (\<forall>q2. shouldRequote cfg q2 s'
             = (REQUOTE_THRESHOLD_BPS cfg \<le> \<bar>bidPrice q2 - bidPrice q\<bar> / bidPrice q * 10000
                \<or> REQUOTE_THRESHOLD_BPS cfg \<le> \<bar>askPrice q2 - askPrice q\<bar> / askPrice q * 10000))"
      unfolding s' evs by (simp add: shouldRequote_def Let_def)
  qed
  have b: "fst (computeQuote cfg now f s) = None \<longrightarrow> computeQuote cfg now f s = (None, s, [])"
    by (simp add: computeQuote_None)
  have c: "\<not> shouldRequote default_config
         \<lparr> bidPrice = 4002 / 10000, askPrice = 44 / 100, bidSize = 50, askSize = 50,
           fairValue = 42 / 100, spread = 398 / 10000, timestamp = 1 \<rparr>
         (quoting_init\<lparr>lastQuote := Some
            \<lparr> bidPrice = 40 / 100, askPrice = 44 / 100, bidSize = 50, askSize = 50,
              fairValue = 42 / 100, spread = 4 / 100, timestamp = 0 \<rparr>\<rparr>)"
    by (simp add: shouldRequote_def default_config_def Let_def)
  have d: "shouldRequote default_config
         \<lparr> bidPrice = 403 / 1000, askPrice = 44 / 100, bidSize = 50, askSize = 50,
           fairValue = 42 / 100, spread = 37 / 1000, timestamp = 1 \<rparr>
         (quoting_init\<lparr>lastQuote := Some
            \<lparr> bidPrice = 40 / 100, askPrice = 44 / 100, bidSize = 50, askSize = 50,
              fairValue = 42 / 100, spread = 4 / 100, timestamp = 0 \<rparr>\<rparr>)"
    by (simp add: shouldRequote_def default_config_def Let_def)
  note e = quoting_run_gate [of cfg ops s]
  from a b c d e show ?thesis by blast
qed

theorem requote_gate_witness:
  "computeQuote default_config 7 (1 / 2) (setTickSize (1 / 100) quoting_init)
     = (Some (cent_quote 7), setTickSize (1 / 100) quoting_init\<lparr>lastQuote := Some (cent_quote 7)\<rparr>,
        [New_quote (cent_quote 7)])
   \<and> lastQuote (setTickSize (1 / 100) quoting_init) = None
   \<and> computeQuote default_config 9 (501 / 1000)
       (setTickSize (1 / 100) quoting_init\<lparr>lastQuote := Some (cent_quote 7)\<rparr>)
     = (Some ((cent_quote 9)\<lparr>fairValue := 501 / 1000\<rparr>),
        setTickSize (1 / 100) quoting_init
          \<lparr>lastQuote := Some ((cent_quote 9)\<lparr>fairValue := 501 / 1000\<rparr>)\<rparr>,
        [])
   \<and> lastQuote (setTickSize (1 / 100) quoting_init
          \<lparr>lastQuote := Some ((cent_quote 9)\<lparr>fairValue := 501 / 1000\<rparr>)\<rparr>)
      = Some ((cent_quote 9)\<lparr>fairValue := 501 / 1000\<rparr>)
   \<and> fst (computeQuote default_config 11 1 (setTickSize (1 / 100) quoting_init)) = None
   \<and> computeQuote default_config 11 1 (setTickSize (1 / 100) quoting_init)
      = (None, setTickSize (1 / 100) quoting_init, [])
   \<and> fst (quoting_run default_config
       [SetTickSize (1 / 100), ComputeQuote 7 (1 / 2), ComputeQuote 9 (501 / 1000),
        ComputeQuote 11 1] quoting_init)
      = [(cent_quote 7, True), ((cent_quote 9)\<lparr>fairValue := 501 / 1000\<rparr>, False)]
   \<and> gate_flags default_config None [cent_quote 7, (cent_quote 9)\<lparr>fairValue := 501 / 1000\<rparr>]
      = [True, False]"
proof -
  have n: "fst (computeQuote default_config 11 1 (setTickSize (1 / 100) quoting_init)) = None"
    by (simp add: computeQuote_def)
  have l: "lastQuote (setTickSize (1 / 100) quoting_init) = None"
    by (simp add: setTickSize_def quoting_init_def)
  have l0: "lastQuote quoting_init = None"
    by (simp add: quoting_init_def)
  from requote_gate [of default_config 9 "501 / 1000"
      "setTickSize (1 / 100) quoting_init\<lparr>lastQuote := Some (cent_quote 7)\<rparr>"
      "(cent_quote 9)\<lparr>fairValue := 501 / 1000\<rparr>"
      "setTickSize (1 / 100) quoting_init
          \<lparr>lastQuote := Some ((cent_quote 9)\<lparr>fairValue := 501 / 1000\<rparr>)\<rparr>" "[]"]
    quote_run_cent_again
  have k: "lastQuote (setTickSize (1 / 100) quoting_init
          \<lparr>lastQuote := Some ((cent_quote 9)\<lparr>fairValue := 501 / 1000\<rparr>)\<rparr>)
      = Some ((cent_quote 9)\<lparr>fairValue := 501 / 1000\<rparr>)"
    by blast
  from requote_gate [of default_config 11 1 "setTickSize (1 / 100) quoting_init"] n
  have m: "computeQuote default_config 11 1 (setTickSize (1 / 100) quoting_init)
      = (None, setTickSize (1 / 100) quoting_init, [])"
    by blast
  have r: "fst (quoting_run default_config
       [SetTickSize (1 / 100), ComputeQuote 7 (1 / 2), ComputeQuote 9 (501 / 1000),
        ComputeQuote 11 1] quoting_init)
      = [(cent_quote 7, True), ((cent_quote 9)\<lparr>fairValue := 501 / 1000\<rparr>, False)]"
    by (simp only: quoting_run_cent fst_conv)
  from requote_gate [of default_config _ _ quoting_init _ _ _
       "[SetTickSize (1 / 100), ComputeQuote 7 (1 / 2), ComputeQuote 9 (501 / 1000),
        ComputeQuote 11 1]"]
  have "map snd (fst (quoting_run default_config
       [SetTickSize (1 / 100), ComputeQuote 7 (1 / 2), ComputeQuote 9 (501 / 1000),
        ComputeQuote 11 1] quoting_init))
       = gate_flags default_config (lastQuote quoting_init) (map fst (fst (quoting_run default_config
       [SetTickSize (1 / 100), ComputeQuote 7 (1 / 2), ComputeQuote 9 (501 / 1000),
        ComputeQuote 11 1] quoting_init)))"
    by blast
  then have g: "gate_flags default_config None
        [cent_quote 7, (cent_quote 9)\<lparr>fairValue := 501 / 1000\<rparr>] = [True, False]"
    unfolding r l0 by simp
  from quote_run_cent' l quote_run_cent_again k n m r g show ?thesis by blast
qed

section \<open>RiskAgent on the quotes of the QuotingAgent\<close>

lemma computeQuote_fairValue:
  "computeQuote cfg now f s = (Some q, s', evs) \<Longrightarrow> fairValue q = f \<and> 0 < f \<and> f < 1"
  by (auto simp: computeQuote_def Let_def split: if_splits)

lemma checkQuote_nonzero_fairValue:
  "\<not> halted s \<Longrightarrow> fairValue q \<noteq> 0 \<Longrightarrow> checkQuote cfg q s = checkQuote_spec cfg q s"
  by (simp add: checkQuote_def checkQuote_spec_def fairValue_or_half_def Let_def)

text \<open>
  Claim C4. \<open>checkQuote\<close> is called on the quotes that \<open>computeQuote\<close> returns
  (index.ts), and their fair value lies strictly between 0 and 1. For every such quote,
  and for every quote whose fair value is not zero, checked while not halted, the decision
  is the specified precedence: if \<open>realizedPnl + unrealizedPnl < - MAX_LOSS\<close> then
  \<open>halted\<close> is set, the halt signal is emitted and \<open>HALT\<close> is returned; otherwise if
  \<open>|netDelta| \<times> fairValue > MAX_NOTIONAL\<close> then \<open>REDUCE_ONLY\<close>; otherwise if
  \<open>|netDelta| > MAX_POSITION\<close> then \<open>REDUCE_ONLY\<close>; otherwise \<open>ALLOW\<close>. On a quote
  whose fair value is zero the same precedence is applied with 0.5 in its place.
\<close>

theorem checkQuote_precedence:
  assumes "\<not> halted s"
  shows "(computeQuote qcfg now f qs = (Some q, qs', evs) \<longrightarrow>
            0 < fairValue q \<and> fairValue q < 1 \<and> checkQuote cfg q s = checkQuote_spec cfg q s)
       \<and> (fairValue q \<noteq> 0 \<longrightarrow> checkQuote cfg q s = checkQuote_spec cfg q s)
       \<and> checkQuote cfg q s
           = checkQuote_spec cfg
               (q\<lparr>fairValue := (if fairValue q = 0 then 1 / 2 else fairValue q)\<rparr>) s"
proof -
  have a: "fairValue q \<noteq> 0 \<longrightarrow> checkQuote cfg q s = checkQuote_spec cfg q s"
    using assms by (simp add: checkQuote_nonzero_fairValue)
  have b: "computeQuote qcfg now f qs = (Some q, qs', evs) \<longrightarrow>
            0 < fairValue q \<and> fairValue q < 1 \<and> checkQuote cfg q s = checkQuote_spec cfg q s"
  proof
    assume "computeQuote qcfg now f qs = (Some q, qs', evs)"
    then have "fairValue q = f \<and> 0 < f \<and> f < 1" by (rule computeQuote_fairValue)
    then show "0 < fairValue q \<and> fairValue q < 1
        \<and> checkQuote cfg q s = checkQuote_spec cfg q s"
      using a by simp
  qed
  have c: "checkQuote cfg q s
           = checkQuote_spec cfg
               (q\<lparr>fairValue := (if fairValue q = 0 then 1 / 2 else fairValue q)\<rparr>) s"
    using assms by (simp add: checkQuote_def checkQuote_spec_def fairValue_or_half_def Let_def)
  from a b c show ?thesis by blast
qed

theorem checkQuote_precedence_witness:
  "\<not> halted risk_init
   \<and> computeQuote default_config 7 (1 / 2) (setTickSize (1 / 100) quoting_init)
     = (Some (cent_quote 7), setTickSize (1 / 100) quoting_init\<lparr>lastQuote := Some (cent_quote 7)\<rparr>,
        [New_quote (cent_quote 7)])
   \<and> checkQuote default_config (cent_quote 7) risk_init = (ALLOW, risk_init, [])
   \<and> checkQuote default_config (cent_quote 7)
        (risk_init\<lparr>position := flat_position\<lparr>yesShares := 2000, netDelta := 2000\<rparr>\<rparr>)
      = (REDUCE_ONLY,
         risk_init\<lparr>position := flat_position\<lparr>yesShares := 2000, netDelta := 2000\<rparr>\<rparr>, [])
   \<and> checkQuote (default_config\<lparr>MAX_POSITION := 20000\<rparr>) (cent_quote 7)
        (risk_init\<lparr>position := flat_position\<lparr>yesShares := 12000, netDelta := 12000\<rparr>\<rparr>)
      = (REDUCE_ONLY,
         risk_init\<lparr>position := flat_position\<lparr>yesShares := 12000, netDelta := 12000\<rparr>\<rparr>, [])
   \<and> checkQuote default_config (cent_quote 7)
        (risk_init\<lparr>position := flat_position\<lparr>realizedPnl := - 600\<rparr>\<rparr>)
      = (HALT, risk_init\<lparr>position := flat_position\<lparr>realizedPnl := - 600\<rparr>, halted := True\<rparr>,
         [Halt_event ''max_loss_breached''])"
proof -
  let ?q = "cent_quote 7"
  let ?qs = "setTickSize (1 / 100) quoting_init"
  let ?s2 = "risk_init\<lparr>position := flat_position\<lparr>yesShares := 2000, netDelta := 2000\<rparr>\<rparr>"
  let ?s3 = "risk_init\<lparr>position := flat_position\<lparr>yesShares := 12000, netDelta := 12000\<rparr>\<rparr>"
  let ?s4 = "risk_init\<lparr>position := flat_position\<lparr>realizedPnl := - 600\<rparr>\<rparr>"
  have n: "\<not> halted risk_init" "\<not> halted ?s2" "\<not> halted ?s3" "\<not> halted ?s4"
    by (simp_all add: risk_init_def)
  have e1: "checkQuote default_config ?q risk_init = checkQuote_spec default_config ?q risk_init"
    using checkQuote_precedence [OF n(1), of default_config 7 "1 / 2" ?qs ?q
        "?qs\<lparr>lastQuote := Some ?q\<rparr>" "[New_quote ?q]" default_config] quote_run_cent'
    by blast
  have e2: "checkQuote default_config ?q ?s2 = checkQuote_spec default_config ?q ?s2"
    using checkQuote_precedence [OF n(2), of default_config 7 "1 / 2" ?qs ?q
        "?qs\<lparr>lastQuote := Some ?q\<rparr>" "[New_quote ?q]" default_config] quote_run_cent'
    by blast
  have e3: "checkQuote (default_config\<lparr>MAX_POSITION := 20000\<rparr>) ?q ?s3
              = checkQuote_spec (default_config\<lparr>MAX_POSITION := 20000\<rparr>) ?q ?s3"
    using checkQuote_precedence [OF n(3), of default_config 7 "1 / 2" ?qs ?q
        "?qs\<lparr>lastQuote := Some ?q\<rparr>" "[New_quote ?q]"
        "default_config\<lparr>MAX_POSITION := 20000\<rparr>"] quote_run_cent'
    by blast
  have e4: "checkQuote default_config ?q ?s4 = checkQuote_spec default_config ?q ?s4"
    using checkQuote_precedence [OF n(4), of default_config 7 "1 / 2" ?qs ?q
        "?qs\<lparr>lastQuote := Some ?q\<rparr>" "[New_quote ?q]" default_config] quote_run_cent'
    by blast
  have v1: "checkQuote_spec default_config ?q risk_init = (ALLOW, risk_init, [])"
    by (simp add: checkQuote_spec_def risk_init_def flat_position_def default_config_def
        cent_quote_def)
  have v2: "checkQuote_spec default_config ?q ?s2 = (REDUCE_ONLY, ?s2, [])"
    by (simp add: checkQuote_spec_def risk_init_def flat_position_def default_config_def
        cent_quote_def)
  have v3: "checkQuote_spec (default_config\<lparr>MAX_POSITION := 20000\<rparr>) ?q ?s3
              = (REDUCE_ONLY, ?s3, [])"
    by (simp add: checkQuote_spec_def risk_init_def flat_position_def default_config_def
        cent_quote_def)
  have v4: "checkQuote_spec default_config ?q ?s4
              = (HALT, ?s4\<lparr>halted := True\<rparr>, [Halt_event ''max_loss_breached''])"
    by (simp add: checkQuote_spec_def risk_init_def flat_position_def default_config_def
        cent_quote_def)
  from n(1) quote_run_cent' e1 e2 e3 e4 v1 v2 v3 v4 show ?thesis by simp
qed

section \<open>Fair-value model: properties\<close>

lemma quadratic_nonneg:
  fixes A B C t :: real
  assumes "0 < C" and "B\<^sup>2 \<le> 4 * A * C"
  shows "0 \<le> A + B * t + C * t\<^sup>2"
proof -
  have "4 * C * (A + B * t + C * t\<^sup>2) = (2 * C * t + B)\<^sup>2 + (4 * A * C - B\<^sup>2)"
    by (simp add: power2_eq_square algebra_simps)
  also have "\<dots> \<ge> 0" using assms(2) by simp
  finally have "0 \<le> 4 * C * (A + B * t + C * t\<^sup>2)" .
  with assms(1) show ?thesis
    by (simp add: zero_le_mult_iff)
qed

lemma cdf_poly'_nonneg: "0 \<le> cdf_poly' t"
proof -
  have q1: "0 \<le> 254829592 / 1000000000 + (2 * (- (284496736 / 1000000000))) * t + 1 * t\<^sup>2"
    by (rule quadratic_nonneg) (simp_all add: power2_eq_square)
  have q2: "0 \<le> (3 * (1421413741 / 1000000000) - 1) + (4 * (- (1453152027 / 1000000000))) * t
                 + (5 * (1061405429 / 1000000000)) * t\<^sup>2"
    by (rule quadratic_nonneg) (simp_all add: power2_eq_square)
  have "cdf_poly' t =
      (254829592 / 1000000000 + (2 * (- (284496736 / 1000000000))) * t + 1 * t\<^sup>2)
      + t\<^sup>2 * ((3 * (1421413741 / 1000000000) - 1) + (4 * (- (1453152027 / 1000000000))) * t
                 + (5 * (1061405429 / 1000000000)) * t\<^sup>2)"
    by (simp add: cdf_poly'_def power2_eq_square power3_eq_cube power4_eq_xxxx algebra_simps)
  also have "\<dots> \<ge> 0"
  proof (rule add_nonneg_nonneg)
    show "0 \<le> 254829592 / 1000000000 + (2 * (- (284496736 / 1000000000))) * t + 1 * t\<^sup>2"
      by (rule q1)
    show "0 \<le> t\<^sup>2 * ((3 * (1421413741 / 1000000000) - 1)
                 + (4 * (- (1453152027 / 1000000000))) * t
                 + (5 * (1061405429 / 1000000000)) * t\<^sup>2)"
      by (rule mult_nonneg_nonneg) (simp, rule q2)
  qed
  finally show ?thesis .
qed

lemma cdf_poly_deriv: "(cdf_poly has_real_derivative cdf_poly' t) (at t)"
  unfolding cdf_poly_def cdf_poly'_def
  by (auto intro!: derivative_eq_intros
      simp: power2_eq_square power3_eq_cube power4_eq_xxxx algebra_simps)

lemma cdf_poly_mono: "a \<le> b \<Longrightarrow> cdf_poly a \<le> cdf_poly b"
  by (rule DERIV_nonneg_imp_nondecreasing [of a b cdf_poly])
     (auto intro: cdf_poly_deriv cdf_poly'_nonneg)

lemma cdf_poly_nonneg: "0 \<le> t \<Longrightarrow> 0 \<le> cdf_poly t"
  using cdf_poly_mono [of 0 t] by (simp add: cdf_poly_def)

lemma normalCDF_nonneg_arg:
  "0 \<le> x \<Longrightarrow>
     normalCDF x =
       (1 / 2) * (1 + (1 - cdf_poly (1 / (1 + 3275911 / 10000000 * (x / sqrt 2)))
                          * exp (- (x / sqrt 2) * (x / sqrt 2))))"
  by (simp add: normalCDF_def cdf_poly_def Let_def)

lemma normalCDF_mono:
  assumes "0 \<le> x" and "x \<le> y"
  shows "normalCDF x \<le> normalCDF y"
proof -
  define u where "u = x / sqrt 2"
  define v where "v = y / sqrt 2"
  have u0: "0 \<le> u" and uv: "u \<le> v"
    using assms by (simp_all add: u_def v_def divide_right_mono)
  have v0: "0 \<le> v" using u0 uv by simp
  let ?p = "3275911 / 10000000 :: real"
  have pos: "0 < 1 + ?p * u" "0 < 1 + ?p * v"
    using u0 v0 by (simp_all add: add_pos_nonneg)
  have "1 + ?p * u \<le> 1 + ?p * v" using uv by simp
  then have t: "1 / (1 + ?p * v) \<le> 1 / (1 + ?p * u)"
    using pos by (simp add: frac_le)
  have tv0: "0 \<le> 1 / (1 + ?p * v)" using pos by simp
  have P: "cdf_poly (1 / (1 + ?p * v)) \<le> cdf_poly (1 / (1 + ?p * u))"
    using t by (rule cdf_poly_mono)
  have P0: "0 \<le> cdf_poly (1 / (1 + ?p * v))"
    using tv0 by (rule cdf_poly_nonneg)
  have "u * u \<le> v * v" using u0 uv by (simp add: mult_mono)
  then have E: "exp (- v * v) \<le> exp (- u * u)" by simp
  have "cdf_poly (1 / (1 + ?p * v)) * exp (- v * v)
          \<le> cdf_poly (1 / (1 + ?p * u)) * exp (- u * u)"
    using P E P0 by (intro mult_mono) simp_all
  then show ?thesis
    using assms u0 v0
    by (simp add: normalCDF_nonneg_arg [of x] normalCDF_nonneg_arg [of y] u_def v_def)
qed

lemma clamp_mono:
  fixes x y lo hi :: real
  shows "x \<le> y \<Longrightarrow> max lo (min hi x) \<le> max lo (min hi y)"
  by (simp add: max_def min_def)

lemma computeFairValue_positive:
  "0 < spot \<Longrightarrow> 0 < K \<Longrightarrow> 0 < vol \<Longrightarrow>
     computeFairValue spot K vol tte =
       max (1 / 100) (min (99 / 100)
         (normalCDF (ln (spot / K)
            / (vol * sqrt (max (tte / 1000 / ((36525 / 100) * 24 * 3600)) (1 / 10 ^ 10))))))"
  unfolding computeFairValue_def Let_def by (simp only: not_less [symmetric] if_False simp_thms)

lemma computeFairValue_range:
  assumes "0 < spot" and "0 < K" and "0 < vol"
  shows "1 / 100 \<le> computeFairValue spot K vol tte \<and> computeFairValue spot K vol tte \<le> 99 / 100"
  unfolding computeFairValue_positive [OF assms] by simp

lemma fairValue_monotone_core:
  assumes "0 < K" and "0 < vol" and "K < spot1" and "spot1 \<le> spot2"
  shows "computeFairValue spot1 K vol tte \<le> computeFairValue spot2 K vol tte"
proof -
  define T where "T = max (tte / 1000 / ((36525 / 100) * 24 * 3600)) (1 / 10 ^ 10)"
  have "0 < T" by (simp add: T_def max_def)
  then have den: "0 < vol * sqrt T" using assms(2) by simp
  have p1: "0 < spot1" and p2: "0 < spot2" using assms by simp_all
  have r1: "1 \<le> spot1 / K" using assms by simp
  have r12: "spot1 / K \<le> spot2 / K" using assms by (simp add: divide_right_mono)
  have l0: "0 \<le> ln (spot1 / K)" using r1 by simp
  have l12: "ln (spot1 / K) \<le> ln (spot2 / K)" using r1 r12 by simp
  have d0: "0 \<le> ln (spot1 / K) / (vol * sqrt T)" using l0 den by simp
  have d12: "ln (spot1 / K) / (vol * sqrt T) \<le> ln (spot2 / K) / (vol * sqrt T)"
    using l12 den by (simp add: divide_right_mono)
  have "normalCDF (ln (spot1 / K) / (vol * sqrt T)) \<le> normalCDF (ln (spot2 / K) / (vol * sqrt T))"
    using d0 d12 by (rule normalCDF_mono)
  then have "max (1 / 100) (min (99 / 100) (normalCDF (ln (spot1 / K) / (vol * sqrt T))))
           \<le> max (1 / 100) (min (99 / 100) (normalCDF (ln (spot2 / K) / (vol * sqrt T))))"
    by (rule clamp_mono)
  then show ?thesis
    unfolding T_def
    by (simp only: computeFairValue_positive [OF p1 assms(1) assms(2)]
        computeFairValue_positive [OF p2 assms(1) assms(2)])
qed

text \<open>
  Claim C9. For a fixed strike \<open>K > 0\<close>, volatility \<open>vol > 0\<close> and time to expiry, the
  fair value does not decrease when the spot price increases over spot prices strictly
  above the strike; the values lie in \<open>[0.01, 0.99]\<close>.
\<close>

theorem fairValue_monotone:
  assumes "0 < K" and "0 < vol" and "K < spot1" and "spot1 \<le> spot2"
  shows "computeFairValue spot1 K vol tte \<le> computeFairValue spot2 K vol tte
       \<and> 1 / 100 \<le> computeFairValue spot1 K vol tte
       \<and> computeFairValue spot2 K vol tte \<le> 99 / 100"
proof -
  have p1: "0 < spot1" and p2: "0 < spot2" using assms by simp_all
  show ?thesis
    using fairValue_monotone_core [OF assms] computeFairValue_range [OF p1 assms(1) assms(2)]
      computeFairValue_range [OF p2 assms(1) assms(2)]
    by blast
qed

theorem fairValue_monotone_witness:
  "(0::real) < 65000 \<and> (0::real) < 1 / 2 \<and> (65000::real) < 65010 \<and> (65010::real) \<le> 65100
   \<and> computeFairValue 65010 65000 (1 / 2) 150000 \<le> computeFairValue 65100 65000 (1 / 2) 150000"
proof -
  have a: "(0::real) < 65000" and b: "(0::real) < 1 / 2" and c: "(65000::real) < 65010"
    and d: "(65010::real) \<le> 65100"
    by simp_all
  from fairValue_monotone [OF a b c d, of 150000] a b c d show ?thesis by blast
qed

end
